theory Spec2Isabelle
  imports Main "HOL-Library.Sublist" "HOL-Library.Multiset"
begin

section \<open>Data model (models/Report.ts)\<close>

text \<open>
  The interfaces of the source become records and its enums datatypes. A \<^verbatim>\<open>Date\<close> is the
  number of milliseconds it holds (\<^typ>\<open>nat\<close>); the version \<^verbatim>\<open>number\<close> is an integer, the
  attempt counters and sizes are natural numbers. Field names that several interfaces share (\<^verbatim>\<open>id\<close>, \<^verbatim>\<open>createdAt\<close>, ...) carry
  the interface's name as a prefix, since record fields are global constants.
\<close>

datatype ReportStatus = DRAFT | PUBLISHED | ARCHIVED

datatype Priority = LOW | MEDIUM | HIGH

datatype ConfidentialityLevel = Public | Internal | Confidential

record Comment =
  comment_id :: string
  comment_text :: string
  author :: string
  comment_createdAt :: nat

record ReportEntry =
  entry_id :: string
  content :: string
  priority :: Priority
  entry_createdAt :: nat
  entry_updatedAt :: nat
  tags :: "string list"
  comments :: "Comment list"

record ReportMetadata =
  department :: string
  confidentialityLevel :: ConfidentialityLevel
  estimatedReadTime :: int
  lastReviewedBy :: "string option"
  lastReviewedAt :: "nat option"

record Report =
  report_id :: string
  title :: string
  description :: string
  status :: ReportStatus
  createdBy :: string
  createdAt :: nat
  updatedAt :: nat
  version :: int
  entries :: "ReportEntry list"
  metadata :: ReportMetadata
  attachments :: "string list"

text \<open>\<^verbatim>\<open>Partial<ReportMetadata>\<close>: every field may be absent (\<open>None\<close>).\<close>

record PartialReportMetadata =
  p_department :: "string option"
  p_confidentialityLevel :: "ConfidentialityLevel option"
  p_estimatedReadTime :: "int option"
  p_lastReviewedBy :: "string option"
  p_lastReviewedAt :: "nat option"

text \<open>
  The body of a PUT request, \<^verbatim>\<open>UpdateReportDTO\<close>. The interface declares \<^verbatim>\<open>version: number\<close>,
  but the controller tests \<^verbatim>\<open>version === undefined\<close>, so the field is optional here as well.
\<close>

record UpdateReportDTO =
  dto_title :: "string option"
  dto_description :: "string option"
  dto_status :: "ReportStatus option"
  dto_metadata :: "PartialReportMetadata option"
  dto_entries :: "ReportEntry list option"
  dto_version :: "int option"

section \<open>Entity store (storage/DataStore.ts)\<close>

record DataStore =
  reports :: "string \<rightharpoonup> Report"

definition DataStore_createReport :: "DataStore \<Rightarrow> Report \<Rightarrow> DataStore" where
  "DataStore_createReport ds report = ds\<lparr>reports := (reports ds)(report_id report \<mapsto> report)\<rparr>"

definition DataStore_getReport :: "DataStore \<Rightarrow> string \<Rightarrow> Report option" where
  "DataStore_getReport ds i = reports ds i"

text \<open>\<^verbatim>\<open>updateReport\<close> of the store writes only under a key that is present.\<close>

definition DataStore_updateReport :: "DataStore \<Rightarrow> string \<Rightarrow> Report \<Rightarrow> DataStore" where
  "DataStore_updateReport ds i report =
     (if reports ds i = None then ds else ds\<lparr>reports := (reports ds)(i \<mapsto> report)\<rparr>)"

section \<open>Status transition validator (services/reportValidator.ts)\<close>

record ValidationResult =
  valid :: bool
  error :: "string option"
  code :: "string option"

definition validResult :: ValidationResult where
  "validResult = \<lparr>valid = True, error = None, code = None\<rparr>"

text \<open>Decimal rendering of a count, as a template literal \<^verbatim>\<open>${n}\<close> prints it.\<close>

definition digitChar :: "nat \<Rightarrow> char" where
  "digitChar d = ''0123456789'' ! d"

fun showNat :: "nat \<Rightarrow> string" where
  "showNat n = (if n < 10 then [digitChar n] else showNat (n div 10) @ [digitChar (n mod 10)])"

declare showNat.simps [simp del]

definition highPriorityCount :: "ReportEntry list \<Rightarrow> nat" where
  "highPriorityCount es = length (filter (\<lambda>entry. priority entry = HIGH) es)"

definition validateArchiveTransition :: "Report \<Rightarrow> ReportStatus \<Rightarrow> ValidationResult" where
  "validateArchiveTransition report newStatus =
     (if newStatus \<noteq> ARCHIVED then validResult
      else if status report = PUBLISHED then
        (if highPriorityCount (entries report) < 3 then
           \<lparr>valid = False,
            error = Some (''Cannot archive published report: requires at least 3 high-priority entries (currently has ''
                          @ showNat (highPriorityCount (entries report)) @ '')''),
            code = Some ''INSUFFICIENT_HIGH_PRIORITY_ENTRIES''\<rparr>
         else validResult)
      else validResult)"

definition validatePublishTransition :: "Report \<Rightarrow> ReportStatus \<Rightarrow> ValidationResult" where
  "validatePublishTransition report newStatus =
     (if newStatus \<noteq> PUBLISHED then validResult
      else if length (entries report) = 0 then
        \<lparr>valid = False,
         error = Some ''Cannot publish report: must have at least one entry'',
         code = Some ''NO_ENTRIES''\<rparr>
      else validResult)"

definition validateStatusTransition :: "Report \<Rightarrow> ReportStatus \<Rightarrow> ValidationResult" where
  "validateStatusTransition report newStatus =
     (let archiveResult = validateArchiveTransition report newStatus in
      if \<not> valid archiveResult then archiveResult
      else let publishResult = validatePublishTransition report newStatus in
        if \<not> valid publishResult then publishResult
        else validResult)"

section \<open>Report mutation (controllers/reportController.ts)\<close>

text \<open>
  A handler's outcome is the HTTP response it sends together with the store it leaves.
  The \<^verbatim>\<open>details\<close> object of an error payload is one of the shapes the controller builds.
\<close>

datatype ErrorDetails =
    VersionDetails int int
  | StatusDetails ReportStatus ReportStatus
  | FieldDetails "string option" "string option"
  | FileTypeDetails "string list" string
  | FileSizeDetails string nat

record FileMetadata =
  file_id :: string
  originalName :: string
  mimeType :: string
  file_size :: nat
  uploadedAt :: nat
  uploadedBy :: string
  file_reportId :: string
  storageKey :: string

datatype Response =
    ErrorResponse nat string "string option" "ErrorDetails option"
  | ReportResponse nat Report
  | UploadResponse nat FileMetadata

text \<open>The spread \<^verbatim>\<open>{ ...existingReport.metadata, ...metadata }\<close>: present fields overwrite.\<close>

definition mergeMetadata :: "ReportMetadata \<Rightarrow> PartialReportMetadata \<Rightarrow> ReportMetadata" where
  "mergeMetadata m p =
     \<lparr>department = (case p_department p of Some d \<Rightarrow> d | None \<Rightarrow> department m),
      confidentialityLevel =
        (case p_confidentialityLevel p of Some c \<Rightarrow> c | None \<Rightarrow> confidentialityLevel m),
      estimatedReadTime =
        (case p_estimatedReadTime p of Some t \<Rightarrow> t | None \<Rightarrow> estimatedReadTime m),
      lastReviewedBy =
        (case p_lastReviewedBy p of Some u \<Rightarrow> Some u | None \<Rightarrow> lastReviewedBy m),
      lastReviewedAt =
        (case p_lastReviewedAt p of Some t \<Rightarrow> Some t | None \<Rightarrow> lastReviewedAt m)\<rparr>"

text \<open>The entries the validator sees: those of the request when it has any, else the stored ones.\<close>

definition candidateEntries :: "Report \<Rightarrow> UpdateReportDTO \<Rightarrow> ReportEntry list" where
  "candidateEntries existingReport body =
     (case dto_entries body of Some es \<Rightarrow> es | None \<Rightarrow> entries existingReport)"

text \<open>
  The block guarded by \<^verbatim>\<open>status !== undefined && status !== existingReport.status\<close>: the
  response it returns when the validator rejects, \<open>None\<close> when the update goes on.
  \<^verbatim>\<open>code || 'BUSINESS_RULE_VIOLATION'\<close> falls back on an absent or empty code.
\<close>

definition statusRejection :: "Report \<Rightarrow> UpdateReportDTO \<Rightarrow> Response option" where
  "statusRejection existingReport body =
     (case dto_status body of
        None \<Rightarrow> None
      | Some st \<Rightarrow>
          if st \<noteq> status existingReport then
            (let reportForValidation =
                   existingReport\<lparr>entries := candidateEntries existingReport body\<rparr>;
                 validationResult = validateStatusTransition reportForValidation st
             in if \<not> valid validationResult then
                  Some (ErrorResponse 400
                    (case code validationResult of
                       None \<Rightarrow> ''BUSINESS_RULE_VIOLATION''
                     | Some c \<Rightarrow> if c = [] then ''BUSINESS_RULE_VIOLATION'' else c)
                    (error validationResult)
                    (Some (StatusDetails (status existingReport) st)))
                else None)
          else None)"

definition applyUpdate :: "nat \<Rightarrow> Report \<Rightarrow> UpdateReportDTO \<Rightarrow> Report" where
  "applyUpdate now existingReport body =
     existingReport\<lparr>
       title := (case dto_title body of Some t \<Rightarrow> t | None \<Rightarrow> title existingReport),
       description :=
         (case dto_description body of Some d \<Rightarrow> d | None \<Rightarrow> description existingReport),
       status := (case dto_status body of Some s \<Rightarrow> s | None \<Rightarrow> status existingReport),
       metadata :=
         (case dto_metadata body of
            Some m \<Rightarrow> mergeMetadata (metadata existingReport) m
          | None \<Rightarrow> metadata existingReport),
       entries := candidateEntries existingReport body,
       updatedAt := now,
       version := version existingReport + 1\<rparr>"

text \<open>
  \<^verbatim>\<open>updateReport(req, res)\<close> with \<open>i = req.params.id\<close>, \<open>body = req.body\<close> and \<open>now\<close> the
  clock's reading. The checks run in the order of the source: version present, report
  present, version equal, status transition.
\<close>

definition updateReport :: "nat \<Rightarrow> string \<Rightarrow> UpdateReportDTO \<Rightarrow> DataStore \<Rightarrow> Response \<times> DataStore" where
  "updateReport now i body ds =
     (case dto_version body of
        None \<Rightarrow>
          (ErrorResponse 400 ''VALIDATION_ERROR''
             (Some ''Version number is required for optimistic locking'') None, ds)
      | Some v \<Rightarrow>
          (case DataStore_getReport ds i of
             None \<Rightarrow> (ErrorResponse 404 ''NOT_FOUND'' (Some ''Report not found'') None, ds)
           | Some existingReport \<Rightarrow>
               if version existingReport \<noteq> v then
                 (ErrorResponse 409 ''CONFLICT''
                    (Some ''Report has been modified by another user'')
                    (Some (VersionDetails (version existingReport) v)), ds)
               else
                 (case statusRejection existingReport body of
                    Some r \<Rightarrow> (r, ds)
                  | None \<Rightarrow>
                      (let updatedReport = applyUpdate now existingReport body
                       in (ReportResponse 200 updatedReport,
                           DataStore_updateReport ds i updatedReport)))))"

subsection \<open>Attachment upload (services/fileStorage.ts, controllers/reportController.ts)\<close>

text \<open>\<^verbatim>\<open>Express.Multer.File\<close>, as far as the controller reads it.\<close>

record UploadedFile =
  originalname :: string
  mimetype :: string
  size :: nat
  buffer :: "nat list"

record StoredFile =
  stored_metadata :: FileMetadata
  stored_buffer :: "nat list"

record FileStorageService =
  files :: "string \<rightharpoonup> StoredFile"

definition allowedMimeTypes :: "string list" where
  "allowedMimeTypes =
     [''application/pdf'', ''image/jpeg'', ''image/jpg'', ''image/png'', ''image/gif'',
      ''application/msword'',
      ''application/vnd.openxmlformats-officedocument.wordprocessingml.document'',
      ''application/vnd.ms-excel'',
      ''application/vnd.openxmlformats-officedocument.spreadsheetml.sheet'',
      ''text/plain'', ''text/csv'']"

definition validateFileType :: "string \<Rightarrow> bool" where
  "validateFileType m = (m \<in> set allowedMimeTypes)"

definition validateFileSize :: "nat \<Rightarrow> bool" where
  "validateFileSize n = (n \<le> 5 * 1024 * 1024)"

definition quoted :: "string \<Rightarrow> string" where
  "quoted s = [CHR 0x27] @ s @ [CHR 0x27]"

text \<open>\<open>fileId\<close> is the identifier \<^verbatim>\<open>uuidv4()\<close> draws.\<close>

definition storeFile ::
  "string \<Rightarrow> nat \<Rightarrow> UploadedFile \<Rightarrow> string \<Rightarrow> string \<Rightarrow> FileStorageService
     \<Rightarrow> FileMetadata \<times> FileStorageService" where
  "storeFile fileId now file reportId userId fs =
     (let md = \<lparr>file_id = fileId, originalName = originalname file, mimeType = mimetype file,
                 file_size = size file, uploadedAt = now, uploadedBy = userId,
                 file_reportId = reportId,
                 storageKey = ''reports/'' @ reportId @ ''/attachments/'' @ fileId\<rparr>
      in (md, fs\<lparr>files := (files fs)(fileId \<mapsto> \<lparr>stored_metadata = md, stored_buffer = buffer file\<rparr>)\<rparr>))"

text \<open>
  \<^verbatim>\<open>uploadAttachment(req, res)\<close> with \<open>file = req.file\<close> and \<open>userId = req.user.id\<close>. The
  201 response is represented by the stored file's metadata; its signed download URL (a
  SHA-256 digest) and the megabyte rendering of an oversized file are left out.
\<close>

definition uploadAttachment ::
  "nat \<Rightarrow> string \<Rightarrow> string \<Rightarrow> UploadedFile option \<Rightarrow> string \<Rightarrow> DataStore \<times> FileStorageService
     \<Rightarrow> Response \<times> DataStore \<times> FileStorageService" where
  "uploadAttachment now fileId i file userId st =
     (case st of (ds, fs) \<Rightarrow>
       (case file of
          None \<Rightarrow>
            (ErrorResponse 400 ''NO_FILE''
               (Some (''No file uploaded. Use '' @ [CHR 0x22] @ ''file'' @ [CHR 0x22]
                      @ '' as the field name'')) None, ds, fs)
        | Some f \<Rightarrow>
            (case DataStore_getReport ds i of
               None \<Rightarrow> (ErrorResponse 404 ''NOT_FOUND'' (Some ''Report not found'') None, ds, fs)
             | Some report \<Rightarrow>
                 if \<not> validateFileType (mimetype f) then
                   (ErrorResponse 400 ''INVALID_FILE_TYPE''
                      (Some (''File type '' @ quoted (mimetype f) @ '' is not allowed''))
                      (Some (FileTypeDetails
                        [''pdf'', ''jpeg'', ''png'', ''gif'', ''doc'', ''docx'', ''xls'', ''xlsx'',
                         ''txt'', ''csv'']
                        (mimetype f))), ds, fs)
                 else if \<not> validateFileSize (size f) then
                   (ErrorResponse 400 ''FILE_TOO_LARGE'' (Some ''File size exceeds 5MB limit'')
                      (Some (FileSizeDetails ''5MB'' (size f))), ds, fs)
                 else
                   (case storeFile fileId now f i userId fs of (md, fs') \<Rightarrow>
                      (let report' = report\<lparr>attachments := attachments report @ [file_id md],
                                            updatedAt := now\<rparr>
                       in (UploadResponse 201 md, DataStore_updateReport ds i report', fs'))))))"

section \<open>Task queue engine (services/asyncTaskQueue.ts)\<close>

datatype TaskType = SEND_NOTIFICATION | INVALIDATE_CACHE | GENERATE_PREVIEW

datatype TaskStatus = PENDING | PROCESSING | COMPLETED | FAILED | DEAD_LETTER

text \<open>
  \<^verbatim>\<open>payload: any\<close>: an object of named values, or \<open>None\<close> for \<^verbatim>\<open>null\<close>, on which a
  property read throws.
\<close>

datatype PayloadValue = PString string | PStrings "string list"

type_synonym Payload = "(string \<times> PayloadValue) list option"

record Task =
  task_id :: string
  task_type :: TaskType
  payload :: Payload
  task_status :: TaskStatus
  attempts :: nat
  maxAttempts :: nat
  task_createdAt :: nat
  processedAt :: "nat option"
  task_error :: "string option"

text \<open>
  How the promise of a handler settles, and after how many milliseconds. The three handlers
  of the source wait on a timer and then read a property of the payload for their log line.
\<close>

datatype Outcome = Resolved | Rejected string

type_synonym Handler = "Task \<Rightarrow> nat \<times> Outcome"

definition readPayload :: "Payload \<Rightarrow> string \<Rightarrow> Outcome" where
  "readPayload p field =
     (case p of
        None \<Rightarrow> Rejected (''Cannot read properties of null (reading '' @ quoted field @ '')'')
      | Some _ \<Rightarrow> Resolved)"

definition sendNotification :: "Payload \<Rightarrow> nat \<times> Outcome" where
  "sendNotification p = (500, readPayload p ''reportId'')"

definition invalidateCache :: "Payload \<Rightarrow> nat \<times> Outcome" where
  "invalidateCache p = (200, readPayload p ''cacheKey'')"

definition generatePreview :: "Payload \<Rightarrow> nat \<times> Outcome" where
  "generatePreview p = (800, readPayload p ''reportId'')"

text \<open>The \<^verbatim>\<open>default\<close> branch of the switch has no value of \<^typ>\<open>TaskType\<close> to reach it.\<close>

definition executeTask :: Handler where
  "executeTask task =
     (case task_type task of
        SEND_NOTIFICATION \<Rightarrow> sendNotification (payload task)
      | INVALIDATE_CACHE \<Rightarrow> invalidateCache (payload task)
      | GENERATE_PREVIEW \<Rightarrow> generatePreview (payload task))"

text \<open>
  What the event loop holds for the engine: the continuation of \<^verbatim>\<open>processQueue\<close> suspended
  at \<^verbatim>\<open>await this.executeTask(task)\<close>, and the two callbacks it hands to \<^verbatim>\<open>setTimeout\<close>.
\<close>

datatype Callback =
    ResumeProcessQueue Task Outcome
  | UnshiftTask Task
  | CallProcessQueue

record AsyncTaskQueue =
  queue :: "Task list"
  processing :: bool
  deadLetterQueue :: "Task list"

text \<open>The engine in its runtime: pending timers, earliest first, and the clock in milliseconds.\<close>

record Runtime = AsyncTaskQueue +
  timers :: "(nat \<times> Callback) list"
  clock :: nat

text \<open>
  Timers run in the order of their due times, and in the order of registration among equals.
  A timer is due its delay after the clock reading at registration; the ceiling the runtime
  puts on a delay (\<open>2\<^sup>3\<^sup>1 - 1\<close> ms) is not modelled.
\<close>

fun insertTimer :: "nat \<times> Callback \<Rightarrow> (nat \<times> Callback) list \<Rightarrow> (nat \<times> Callback) list" where
  "insertTimer t [] = [t]"
| "insertTimer t (u # us) = (if fst t < fst u then t # u # us else u # insertTimer t us)"

definition setTimeout :: "Callback \<Rightarrow> nat \<Rightarrow> Runtime \<Rightarrow> Runtime" where
  "setTimeout cb delay s = s\<lparr>timers := insertTimer (clock s + delay, cb) (timers s)\<rparr>"

text \<open>\<^verbatim>\<open>processQueue\<close> up to its \<^verbatim>\<open>await\<close>, with \<open>h\<close> the handler that \<^verbatim>\<open>executeTask\<close> runs.\<close>

definition processQueue :: "Handler \<Rightarrow> Runtime \<Rightarrow> Runtime" where
  "processQueue h s =
     (case queue s of
        [] \<Rightarrow> s\<lparr>processing := False\<rparr>
      | task # rest \<Rightarrow>
          (let task' = task\<lparr>task_status := PROCESSING\<rparr>
           in setTimeout (ResumeProcessQueue task' (snd (h task'))) (fst (h task'))
                (s\<lparr>processing := True, queue := rest\<rparr>)))"

text \<open>
  \<^verbatim>\<open>processQueue\<close> from the \<^verbatim>\<open>await\<close> on. The \<^verbatim>\<open>try\<close> branch sets \<^verbatim>\<open>status\<close> and \<^verbatim>\<open>processedAt\<close>
  on a task object that no field of the engine refers to any more, so the engine's state is
  untouched; the \<^verbatim>\<open>catch\<close> branch counts the attempt and dead-letters the task or
  schedules its reinsertion. Either way the next \<^verbatim>\<open>processQueue\<close> is 100 ms away.
\<close>

definition resumeProcessQueue :: "Task \<Rightarrow> Outcome \<Rightarrow> Runtime \<Rightarrow> Runtime" where
  "resumeProcessQueue task out s =
     setTimeout CallProcessQueue 100
       (case out of
          Resolved \<Rightarrow> s
        | Rejected msg \<Rightarrow>
            (let task1 = task\<lparr>attempts := attempts task + 1, task_error := Some msg\<rparr>
             in if attempts task1 \<ge> maxAttempts task1 then
                  s\<lparr>deadLetterQueue := deadLetterQueue s @ [task1\<lparr>task_status := DEAD_LETTER\<rparr>]\<rparr>
                else
                  (let task2 = task1\<lparr>task_status := FAILED\<rparr>;
                       backoffDelay = 2 ^ attempts task2 * 1000
                   in setTimeout (UnshiftTask task2) backoffDelay s)))"

text \<open>
  The task object as the \<^verbatim>\<open>catch\<close> branch leaves it, and the delay that branch computes
  for it.
\<close>

definition failTask :: "string \<Rightarrow> Task \<Rightarrow> Task" where
  "failTask msg task =
     (let task1 = task\<lparr>attempts := attempts task + 1, task_error := Some msg\<rparr>
      in if attempts task1 \<ge> maxAttempts task1 then task1\<lparr>task_status := DEAD_LETTER\<rparr>
         else task1\<lparr>task_status := FAILED\<rparr>)"

definition backoffDelay :: "Task \<Rightarrow> nat" where
  "backoffDelay task = 2 ^ attempts task * 1000"

definition enqueue :: "Handler \<Rightarrow> Task \<Rightarrow> Runtime \<Rightarrow> Runtime" where
  "enqueue h task s =
     (let s1 = s\<lparr>queue := queue s @ [task]\<rparr>
      in if \<not> processing s1 then processQueue h s1 else s1)"

definition getStatus :: "Runtime \<Rightarrow> nat \<times> bool \<times> nat" where
  "getStatus s = (length (queue s), processing s, length (deadLetterQueue s))"

definition getDeadLetterQueue :: "Runtime \<Rightarrow> Task list" where
  "getDeadLetterQueue s = deadLetterQueue s"

subsection \<open>The event loop\<close>

definition fire :: "Handler \<Rightarrow> Callback \<Rightarrow> Runtime \<Rightarrow> Runtime" where
  "fire h cb s =
     (case cb of
        ResumeProcessQueue task out \<Rightarrow> resumeProcessQueue task out s
      | UnshiftTask task \<Rightarrow> s\<lparr>queue := task # queue s\<rparr>
      | CallProcessQueue \<Rightarrow> processQueue h s)"

text \<open>One turn of the loop runs the earliest timer at its due time; with none it idles.\<close>

definition tick :: "Handler \<Rightarrow> Runtime \<Rightarrow> Runtime" where
  "tick h s =
     (case timers s of
        [] \<Rightarrow> s
      | (due, cb) # rest \<Rightarrow> fire h cb (s\<lparr>timers := rest, clock := max (clock s) due\<rparr>))"

text \<open>The tasks the engine still refers to: pending, in flight or awaiting reinsertion, dead-lettered.\<close>

fun callbackTasks :: "Callback \<Rightarrow> Task list" where
  "callbackTasks (ResumeProcessQueue task out) = [task]"
| "callbackTasks (UnshiftTask task) = [task]"
| "callbackTasks CallProcessQueue = []"

definition heldTasks :: "Runtime \<Rightarrow> Task list" where
  "heldTasks s = queue s @ concat (map (\<lambda>t. callbackTasks (snd t)) (timers s)) @ deadLetterQueue s"

definition idleEngine :: Runtime where
  "idleEngine = \<lparr>queue = [], processing = False, deadLetterQueue = [], timers = [], clock = 0\<rparr>"

text \<open>Events of a run: a call of \<^verbatim>\<open>enqueue\<close> at some time, or a turn of the event loop.\<close>

datatype Event = EnqueueAt nat Task | TimerFires

definition applyEvent :: "Handler \<Rightarrow> Event \<Rightarrow> Runtime \<Rightarrow> Runtime" where
  "applyEvent h e s =
     (case e of
        EnqueueAt t task \<Rightarrow> enqueue h task (s\<lparr>clock := max (clock s) t\<rparr>)
      | TimerFires \<Rightarrow> tick h s)"

fun runEvents :: "Handler \<Rightarrow> Event list \<Rightarrow> Runtime \<Rightarrow> Runtime" where
  "runEvents h [] s = s"
| "runEvents h (e # es) s = runEvents h es (applyEvent h e s)"

subsection \<open>Report creation (controllers/reportController.ts)\<close>

record AuthUser =
  user_id :: string
  username :: string

record CreateReportDTO =
  c_title :: "string option"
  c_description :: "string option"
  c_metadata :: "ReportMetadata option"

text \<open>\<^verbatim>\<open>!title\<close>: the field is absent or the empty string.\<close>

definition falsy :: "string option \<Rightarrow> bool" where
  "falsy x = (case x of None \<Rightarrow> True | Some str \<Rightarrow> str = [])"

definition defaultMetadata :: ReportMetadata where
  "defaultMetadata =
     \<lparr>department = ''General'', confidentialityLevel = Internal, estimatedReadTime = 0,
      lastReviewedBy = None, lastReviewedAt = None\<rparr>"

definition newReport :: "nat \<Rightarrow> string \<Rightarrow> AuthUser \<Rightarrow> string \<Rightarrow> string \<Rightarrow> ReportMetadata option \<Rightarrow> Report" where
  "newReport now uuid user t d m =
     \<lparr>report_id = uuid, title = t, description = d, status = DRAFT, createdBy = user_id user,
      createdAt = now, updatedAt = now, version = 1, entries = [],
      metadata = (case m of Some md \<Rightarrow> md | None \<Rightarrow> defaultMetadata),
      attachments = []\<rparr>"

definition notificationTask :: "nat \<Rightarrow> Report \<Rightarrow> AuthUser \<Rightarrow> Task" where
  "notificationTask now r user =
     \<lparr>task_id = report_id r @ ''-notification'', task_type = SEND_NOTIFICATION,
      payload = Some [(''reportId'', PString (report_id r)), (''reportTitle'', PString (title r)),
                      (''createdBy'', PString (username user)),
                      (''recipients'', PStrings [''manager@company.com'', ''team@company.com''])],
      task_status = PENDING, attempts = 0, maxAttempts = 3, task_createdAt = now,
      processedAt = None, task_error = None\<rparr>"

definition cacheTask :: "nat \<Rightarrow> Report \<Rightarrow> Task" where
  "cacheTask now r =
     \<lparr>task_id = report_id r @ ''-cache'', task_type = INVALIDATE_CACHE,
      payload = Some [(''cacheKey'', PString (''reports:'' @ department (metadata r))),
                      (''reportId'', PString (report_id r))],
      task_status = PENDING, attempts = 0, maxAttempts = 2, task_createdAt = now,
      processedAt = None, task_error = None\<rparr>"

definition previewTask :: "nat \<Rightarrow> Report \<Rightarrow> Task" where
  "previewTask now r =
     \<lparr>task_id = report_id r @ ''-preview'', task_type = GENERATE_PREVIEW,
      payload = Some [(''reportId'', PString (report_id r)), (''title'', PString (title r))],
      task_status = PENDING, attempts = 0, maxAttempts = 3, task_createdAt = now,
      processedAt = None, task_error = None\<rparr>"

text \<open>
  \<^verbatim>\<open>createReport(req, res)\<close> with \<open>uuid\<close> the identifier drawn for the report and \<open>user\<close> the
  authenticated \<^verbatim>\<open>req.user\<close>. The engine is the singleton, whose handler is \<^const>\<open>executeTask\<close>.
\<close>

definition createReport ::
  "nat \<Rightarrow> string \<Rightarrow> AuthUser \<Rightarrow> CreateReportDTO \<Rightarrow> DataStore \<times> Runtime
     \<Rightarrow> Response \<times> DataStore \<times> Runtime" where
  "createReport now uuid user body st =
     (case st of (ds, taskQueue) \<Rightarrow>
       if falsy (c_title body) \<or> falsy (c_description body) then
         (ErrorResponse 400 ''VALIDATION_ERROR'' (Some ''Title and description are required'')
            (Some (FieldDetails
              (if falsy (c_title body) then Some ''Title is required'' else None)
              (if falsy (c_description body) then Some ''Description is required'' else None))),
          ds, taskQueue)
       else
         (let r = newReport now uuid user (case c_title body of Some t \<Rightarrow> t | None \<Rightarrow> [])
                    (case c_description body of Some d \<Rightarrow> d | None \<Rightarrow> []) (c_metadata body);
              ds' = DataStore_createReport ds r;
              q1 = enqueue executeTask (notificationTask now r user) taskQueue;
              q2 = enqueue executeTask (cacheTask now r) q1;
              q3 = enqueue executeTask (previewTask now r) q2
          in (ReportResponse 201 r, ds', q3)))"

subsection \<open>Notions for the proofs about timers\<close>

text \<open>
  The timer list of a runtime is ordered when it is sorted by due time and no timer is due
  before the clock. The weight of a callback bounds the number of turns that it and the
  callbacks it will register can take before a timer due at \<open>D\<close>.
\<close>

definition timersOrdered :: "Runtime \<Rightarrow> bool" where
  "timersOrdered s = (sorted (map fst (timers s)) \<and> list_all (\<lambda>t. clock s \<le> fst t) (timers s))"

fun callbackWeight :: "nat \<Rightarrow> nat \<times> Callback \<Rightarrow> nat" where
  "callbackWeight D (t, UnshiftTask task) = 1"
| "callbackWeight D (t, ResumeProcessQueue task out) = (D - t) + 1"
| "callbackWeight D (t, CallProcessQueue) = (D - t) + 2"

definition aheadWeight :: "nat \<Rightarrow> (nat \<times> Callback) list \<Rightarrow> nat" where
  "aheadWeight D ts = sum_list (map (callbackWeight D) ts)"

definition waiting :: "Runtime \<Rightarrow> nat \<times> Callback \<Rightarrow> nat \<Rightarrow> bool" where
  "waiting s x w =
     (\<exists>pre post. timers s = pre @ x # post \<and> aheadWeight (fst x) pre \<le> w \<and> timersOrdered s)"

section \<open>Example values\<close>

definition exampleEntry :: "string \<Rightarrow> Priority \<Rightarrow> ReportEntry" where
  "exampleEntry i p =
     \<lparr>entry_id = i, content = ''text'', priority = p, entry_createdAt = 0, entry_updatedAt = 0,
      tags = [], comments = []\<rparr>"

text \<open>A published report at version 3 with two high-priority entries and a low-priority one.\<close>

definition exampleReport :: Report where
  "exampleReport =
     \<lparr>report_id = ''r1'', title = ''Quarterly'', description = ''Q3 figures'', status = PUBLISHED,
      createdBy = ''u1'', createdAt = 0, updatedAt = 0, version = 3,
      entries = [exampleEntry ''e1'' HIGH, exampleEntry ''e2'' HIGH, exampleEntry ''e3'' LOW],
      metadata = defaultMetadata, attachments = []\<rparr>"

definition exampleDraft :: Report where
  "exampleDraft = exampleReport\<lparr>report_id := ''r2'', status := DRAFT, entries := []\<rparr>"

definition exampleStore :: DataStore where
  "exampleStore = \<lparr>reports = [''r1'' \<mapsto> exampleReport, ''r2'' \<mapsto> exampleDraft]\<rparr>"

definition emptyBody :: UpdateReportDTO where
  "emptyBody =
     \<lparr>dto_title = None, dto_description = None, dto_status = None, dto_metadata = None,
      dto_entries = None, dto_version = None\<rparr>"

definition emptyFiles :: FileStorageService where
  "emptyFiles = \<lparr>files = Map.empty\<rparr>"

definition exampleFile :: UploadedFile where
  "exampleFile = \<lparr>originalname = ''notes.txt'', mimetype = ''text/plain'', size = 3, buffer = [104, 105, 10]\<rparr>"

definition exampleUser :: AuthUser where
  "exampleUser = \<lparr>user_id = ''u1'', username = ''editor1''\<rparr>"

definition exampleCreate :: CreateReportDTO where
  "exampleCreate = \<lparr>c_title = Some ''Weekly'', c_description = Some ''Week 44'', c_metadata = None\<rparr>"

text \<open>A task whose payload is \<^verbatim>\<open>null\<close>: its handler throws on every attempt.\<close>

definition poisonTask :: Task where
  "poisonTask =
     \<lparr>task_id = ''t1'', task_type = SEND_NOTIFICATION, payload = None, task_status = PENDING,
      attempts = 0, maxAttempts = 2, task_createdAt = 0, processedAt = None, task_error = None\<rparr>"

definition goodTask :: Task where
  "goodTask = poisonTask\<lparr>task_id := ''t2'', payload := Some [(''reportId'', PString ''r1'')]\<rparr>"

text \<open>The engine left behind by the failing task once the event loop has nothing to run.\<close>

definition strandedEngine :: Runtime where
  "strandedEngine =
     \<lparr>queue = [poisonTask\<lparr>task_status := FAILED, attempts := 1,
                 task_error := Some (''Cannot read properties of null (reading '' @ quoted ''reportId'' @ '')'')\<rparr>],
      processing = False, deadLetterQueue = [], timers = [], clock = 2500\<rparr>"

section \<open>Verified properties\<close>

subsection \<open>Helper facts\<close>

lemma valid_validResult: "valid validResult"
  by (simp add: validResult_def)

lemma archive_other_target: "s \<noteq> ARCHIVED \<Longrightarrow> validateArchiveTransition r s = validResult"
  by (simp add: validateArchiveTransition_def)

lemma publish_other_target: "s \<noteq> PUBLISHED \<Longrightarrow> validatePublishTransition r s = validResult"
  by (simp add: validatePublishTransition_def)

lemma exampleStore_r1: "DataStore_getReport exampleStore ''r1'' = Some exampleReport"
  by (simp add: DataStore_getReport_def exampleStore_def)

lemma exampleStore_r2: "DataStore_getReport exampleStore ''r2'' = Some exampleDraft"
  by (simp add: DataStore_getReport_def exampleStore_def)

lemma exampleStore_r9: "DataStore_getReport exampleStore ''r9'' = None"
  by (simp add: DataStore_getReport_def exampleStore_def)

lemma exampleReport_high: "highPriorityCount (entries exampleReport) = 2"
  by (simp add: highPriorityCount_def exampleReport_def exampleEntry_def)

lemma statusRejection_error:
  "statusRejection r body = Some x \<Longrightarrow> \<exists>k m d. x = ErrorResponse 400 k m d"
  by (auto simp: statusRejection_def Let_def split: option.splits if_splits)

lemma showNat_digit: "n < 10 \<Longrightarrow> showNat n = [digitChar n]"
  by (simp add: showNat.simps)

subsection \<open>Optimistic locking\<close>

text \<open>
  C1. An update whose supplied version differs from the stored version of the report is
  answered 409 \<^verbatim>\<open>CONFLICT\<close>; the details carry the stored version and the supplied one, and
  the store, hence the report and its version, is the one the call started from.
\<close>

theorem update_stale_version_conflict:
  assumes "DataStore_getReport ds i = Some r"
    and "dto_version body = Some v"
    and "v \<noteq> version r"
  shows "updateReport now i body ds =
           (ErrorResponse 409 ''CONFLICT'' (Some ''Report has been modified by another user'')
              (Some (VersionDetails (version r) v)), ds)"
  using assms by (simp add: updateReport_def)

theorem update_stale_version_conflict_witness:
  "updateReport 50 ''r1'' (emptyBody\<lparr>dto_title := Some ''New'', dto_version := Some 1\<rparr>) exampleStore =
     (ErrorResponse 409 ''CONFLICT'' (Some ''Report has been modified by another user'')
        (Some (VersionDetails 3 1)), exampleStore)
   \<and> DataStore_getReport exampleStore ''r1'' = Some exampleReport \<and> version exampleReport = 3"
  using update_stale_version_conflict [of exampleStore "''r1''" exampleReport
      "emptyBody\<lparr>dto_title := Some ''New'', dto_version := Some 1\<rparr>" 1 50]
  by (simp add: exampleStore_r1 emptyBody_def exampleReport_def)

text \<open>
  C6, as the spec states it, fails: an update that names no stored report and supplies no
  version is answered 400 \<^verbatim>\<open>VALIDATION_ERROR\<close>, not 404 \<^verbatim>\<open>NOT_FOUND\<close>.
\<close>

theorem update_missing_report_no_version_counterexample:
  "DataStore_getReport exampleStore ''r9'' = None
   \<and> dto_version emptyBody = None
   \<and> fst (updateReport 50 ''r9'' emptyBody exampleStore) =
       ErrorResponse 400 ''VALIDATION_ERROR''
         (Some ''Version number is required for optimistic locking'') None
   \<and> fst (updateReport 50 ''r9'' emptyBody exampleStore) \<noteq>
       ErrorResponse 404 ''NOT_FOUND'' (Some ''Report not found'') None"
  by (simp add: exampleStore_r9 updateReport_def emptyBody_def)

text \<open>
  C6, amended. The update first checks that a version is supplied and answers 400
  \<^verbatim>\<open>VALIDATION_ERROR\<close> when it is not, whether or not the report exists; only then does it
  look the report up, answering 404 \<^verbatim>\<open>NOT_FOUND\<close> when it is absent. The store is unchanged
  in both cases.
\<close>

theorem update_version_checked_before_lookup:
  "(dto_version body = None \<longrightarrow>
      updateReport now i body ds =
        (ErrorResponse 400 ''VALIDATION_ERROR''
           (Some ''Version number is required for optimistic locking'') None, ds))
   \<and> (dto_version body \<noteq> None \<and> DataStore_getReport ds i = None \<longrightarrow>
      updateReport now i body ds =
        (ErrorResponse 404 ''NOT_FOUND'' (Some ''Report not found'') None, ds))"
  by (auto simp: updateReport_def)

theorem update_version_checked_before_lookup_witness:
  "updateReport 50 ''r1'' emptyBody exampleStore =
     (ErrorResponse 400 ''VALIDATION_ERROR''
        (Some ''Version number is required for optimistic locking'') None, exampleStore)
   \<and> updateReport 50 ''r9'' (emptyBody\<lparr>dto_version := Some 1\<rparr>) exampleStore =
     (ErrorResponse 404 ''NOT_FOUND'' (Some ''Report not found'') None, exampleStore)"
  using update_version_checked_before_lookup [of emptyBody 50 "''r1''" exampleStore]
    update_version_checked_before_lookup [of "emptyBody\<lparr>dto_version := Some 1\<rparr>" 50 "''r9''" exampleStore]
  by (simp add: exampleStore_r9 emptyBody_def)

subsection \<open>Status transitions\<close>

text \<open>
  C10. For the target status \<^verbatim>\<open>draft\<close> neither rule applies: both rules and the validator
  return \<^verbatim>\<open>{ valid: true }\<close> for every report.
\<close>

theorem draft_transition_always_valid:
  "validateStatusTransition r DRAFT = validResult
   \<and> validateArchiveTransition r DRAFT = validResult
   \<and> validatePublishTransition r DRAFT = validResult
   \<and> valid (validateStatusTransition r DRAFT)"
  by (simp add: validateStatusTransition_def archive_other_target publish_other_target
      valid_validResult)

text \<open>
  C7. The validator returns the archive rule's failure when that rule fails, else the publish
  rule's failure when that one fails, else success. Asked for \<^verbatim>\<open>published\<close> on a report
  whose (candidate) entries are empty it fails with code \<^verbatim>\<open>NO_ENTRIES\<close>; with at least one
  entry the publish rule passes. An update that changes the status to \<^verbatim>\<open>published\<close> with no
  candidate entries is answered 400 \<^verbatim>\<open>NO_ENTRIES\<close> and leaves the store as it was.
\<close>

theorem publish_rule_after_archive_rule:
  "validateStatusTransition r s =
     (if \<not> valid (validateArchiveTransition r s) then validateArchiveTransition r s
      else if \<not> valid (validatePublishTransition r s) then validatePublishTransition r s
      else validResult)
   \<and> (entries r = [] \<longrightarrow>
        validateStatusTransition r PUBLISHED =
          \<lparr>valid = False, error = Some ''Cannot publish report: must have at least one entry'',
           code = Some ''NO_ENTRIES''\<rparr>)
   \<and> (entries r \<noteq> [] \<longrightarrow> validatePublishTransition r s = validResult)
   \<and> (DataStore_getReport ds i = Some r \<and> dto_version body = Some (version r)
        \<and> dto_status body = Some PUBLISHED \<and> status r \<noteq> PUBLISHED
        \<and> candidateEntries r body = [] \<longrightarrow>
        updateReport now i body ds =
          (ErrorResponse 400 ''NO_ENTRIES''
             (Some ''Cannot publish report: must have at least one entry'')
             (Some (StatusDetails (status r) PUBLISHED)), ds))"
  by (auto simp: validateStatusTransition_def Let_def validatePublishTransition_def
      archive_other_target valid_validResult updateReport_def statusRejection_def)

theorem publish_rule_after_archive_rule_witness:
  "validateStatusTransition exampleDraft PUBLISHED =
     \<lparr>valid = False, error = Some ''Cannot publish report: must have at least one entry'',
      code = Some ''NO_ENTRIES''\<rparr>
   \<and> validatePublishTransition exampleReport PUBLISHED = validResult
   \<and> updateReport 50 ''r2'' (emptyBody\<lparr>dto_status := Some PUBLISHED, dto_version := Some 3\<rparr>)
        exampleStore =
       (ErrorResponse 400 ''NO_ENTRIES''
          (Some ''Cannot publish report: must have at least one entry'')
          (Some (StatusDetails DRAFT PUBLISHED)), exampleStore)"
proof -
  let ?body = "emptyBody\<lparr>dto_status := Some PUBLISHED, dto_version := Some 3\<rparr>"
  have empty: "entries exampleDraft = []"
    by (simp add: exampleDraft_def)
  have nonempty: "entries exampleReport \<noteq> []"
    by (simp add: exampleReport_def)
  have request: "DataStore_getReport exampleStore ''r2'' = Some exampleDraft
      \<and> dto_version ?body = Some (version exampleDraft)
      \<and> dto_status ?body = Some PUBLISHED \<and> status exampleDraft \<noteq> PUBLISHED
      \<and> candidateEntries exampleDraft ?body = []"
    by (simp add: exampleStore_r2 exampleDraft_def exampleReport_def emptyBody_def
        candidateEntries_def)
  have st: "status exampleDraft = DRAFT"
    by (simp add: exampleDraft_def)
  note draft = publish_rule_after_archive_rule
    [of exampleDraft PUBLISHED exampleStore "''r2''" ?body 50]
  note report = publish_rule_after_archive_rule
    [of exampleReport PUBLISHED exampleStore "''r1''" emptyBody 50]
  from draft empty have 1: "validateStatusTransition exampleDraft PUBLISHED =
     \<lparr>valid = False, error = Some ''Cannot publish report: must have at least one entry'',
      code = Some ''NO_ENTRIES''\<rparr>"
    by blast
  from report nonempty have 2: "validatePublishTransition exampleReport PUBLISHED = validResult"
    by blast
  from draft request have 3: "updateReport 50 ''r2'' ?body exampleStore =
       (ErrorResponse 400 ''NO_ENTRIES''
          (Some ''Cannot publish report: must have at least one entry'')
          (Some (StatusDetails (status exampleDraft) PUBLISHED)), exampleStore)"
    by blast
  from 1 2 3 st show ?thesis
    by simp
qed

text \<open>
  C3. An update that asks for \<^verbatim>\<open>archived\<close> on a stored \<^verbatim>\<open>published\<close> report (version matching)
  counts the high-priority entries among the candidate entries. Below 3 it is answered 400
  \<^verbatim>\<open>INSUFFICIENT_HIGH_PRIORITY_ENTRIES\<close> with the count printed in the message, and the store
  is unchanged; from 3 on the archive rule passes and the update is applied.
\<close>

theorem archive_rule_needs_three_high_priority:
  assumes "DataStore_getReport ds i = Some r"
    and "dto_version body = Some (version r)"
    and "status r = PUBLISHED"
    and "dto_status body = Some ARCHIVED"
  shows "(highPriorityCount (candidateEntries r body) < 3 \<longrightarrow>
            code (validateStatusTransition (r\<lparr>entries := candidateEntries r body\<rparr>) ARCHIVED) =
              Some ''INSUFFICIENT_HIGH_PRIORITY_ENTRIES''
          \<and> updateReport now i body ds =
              (ErrorResponse 400 ''INSUFFICIENT_HIGH_PRIORITY_ENTRIES''
                 (Some (''Cannot archive published report: requires at least 3 high-priority entries (currently has ''
                        @ showNat (highPriorityCount (candidateEntries r body)) @ '')''))
                 (Some (StatusDetails PUBLISHED ARCHIVED)), ds))
       \<and> (3 \<le> highPriorityCount (candidateEntries r body) \<longrightarrow>
            validateArchiveTransition (r\<lparr>entries := candidateEntries r body\<rparr>) ARCHIVED = validResult
          \<and> validateStatusTransition (r\<lparr>entries := candidateEntries r body\<rparr>) ARCHIVED = validResult
          \<and> updateReport now i body ds =
              (ReportResponse 200 (applyUpdate now r body),
               DataStore_updateReport ds i (applyUpdate now r body)))"
proof (intro conjI impI)
  let ?cand = "r\<lparr>entries := candidateEntries r body\<rparr>"
  assume few: "highPriorityCount (candidateEntries r body) < 3"
  with assms(3) have arch: "validateArchiveTransition ?cand ARCHIVED =
      \<lparr>valid = False,
       error = Some (''Cannot archive published report: requires at least 3 high-priority entries (currently has ''
                     @ showNat (highPriorityCount (candidateEntries r body)) @ '')''),
       code = Some ''INSUFFICIENT_HIGH_PRIORITY_ENTRIES''\<rparr>"
    by (simp add: validateArchiveTransition_def)
  then have whole: "validateStatusTransition ?cand ARCHIVED = validateArchiveTransition ?cand ARCHIVED"
    by (simp add: validateStatusTransition_def)
  from whole arch show "code (validateStatusTransition ?cand ARCHIVED) =
      Some ''INSUFFICIENT_HIGH_PRIORITY_ENTRIES''"
    by simp
  from whole arch assms show "updateReport now i body ds =
      (ErrorResponse 400 ''INSUFFICIENT_HIGH_PRIORITY_ENTRIES''
         (Some (''Cannot archive published report: requires at least 3 high-priority entries (currently has ''
                @ showNat (highPriorityCount (candidateEntries r body)) @ '')''))
         (Some (StatusDetails PUBLISHED ARCHIVED)), ds)"
    by (simp add: updateReport_def statusRejection_def)
next
  let ?cand = "r\<lparr>entries := candidateEntries r body\<rparr>"
  assume enough: "3 \<le> highPriorityCount (candidateEntries r body)"
  then show arch: "validateArchiveTransition ?cand ARCHIVED = validResult"
    by (simp add: validateArchiveTransition_def)
  then show whole: "validateStatusTransition ?cand ARCHIVED = validResult"
    by (simp add: validateStatusTransition_def publish_other_target valid_validResult)
  with assms show "updateReport now i body ds =
      (ReportResponse 200 (applyUpdate now r body),
       DataStore_updateReport ds i (applyUpdate now r body))"
    by (simp add: updateReport_def statusRejection_def valid_validResult Let_def)
qed

text \<open>
  The boundary: the example report has two high-priority entries and cannot be archived; the
  same request carrying a third high-priority entry is applied, at version 4.
\<close>

theorem archive_rule_needs_three_high_priority_witness:
  "updateReport 50 ''r1'' (emptyBody\<lparr>dto_status := Some ARCHIVED, dto_version := Some 3\<rparr>)
      exampleStore =
     (ErrorResponse 400 ''INSUFFICIENT_HIGH_PRIORITY_ENTRIES''
        (Some ''Cannot archive published report: requires at least 3 high-priority entries (currently has 2)'')
        (Some (StatusDetails PUBLISHED ARCHIVED)), exampleStore)
   \<and> fst (updateReport 50 ''r1''
        (emptyBody\<lparr>dto_status := Some ARCHIVED, dto_version := Some 3,
           dto_entries := Some (entries exampleReport @ [exampleEntry ''e4'' HIGH])\<rparr>)
        exampleStore) =
     ReportResponse 200
       (exampleReport\<lparr>status := ARCHIVED, updatedAt := 50, version := 4,
          entries := entries exampleReport @ [exampleEntry ''e4'' HIGH]\<rparr>)"
proof -
  let ?two = "emptyBody\<lparr>dto_status := Some ARCHIVED, dto_version := Some 3\<rparr>"
  let ?three = "emptyBody\<lparr>dto_status := Some ARCHIVED, dto_version := Some 3,
      dto_entries := Some (entries exampleReport @ [exampleEntry ''e4'' HIGH])\<rparr>"
  have pub: "status exampleReport = PUBLISHED" and ver: "version exampleReport = 3"
    by (simp_all add: exampleReport_def)
  have two: "dto_version ?two = Some (version exampleReport)" "dto_status ?two = Some ARCHIVED"
    "highPriorityCount (candidateEntries exampleReport ?two) = 2"
    by (simp_all add: ver emptyBody_def candidateEntries_def exampleReport_high)
  have three: "dto_version ?three = Some (version exampleReport)" "dto_status ?three = Some ARCHIVED"
    "highPriorityCount (candidateEntries exampleReport ?three) = 3"
    using exampleReport_high
    by (simp_all add: ver emptyBody_def candidateEntries_def highPriorityCount_def
        exampleEntry_def)
  have shown: "showNat 2 = ''2''"
    by (simp add: showNat_digit digitChar_def)
  from archive_rule_needs_three_high_priority [OF exampleStore_r1 two(1) pub two(2), of 50]
  have 1: "updateReport 50 ''r1'' ?two exampleStore =
     (ErrorResponse 400 ''INSUFFICIENT_HIGH_PRIORITY_ENTRIES''
        (Some ''Cannot archive published report: requires at least 3 high-priority entries (currently has 2)'')
        (Some (StatusDetails PUBLISHED ARCHIVED)), exampleStore)"
    by (simp add: two(3) shown)
  from archive_rule_needs_three_high_priority [OF exampleStore_r1 three(1) pub three(2), of 50]
  have "fst (updateReport 50 ''r1'' ?three exampleStore) =
      ReportResponse 200 (applyUpdate 50 exampleReport ?three)"
    by (simp add: three(3))
  moreover have "applyUpdate 50 exampleReport ?three =
      exampleReport\<lparr>status := ARCHIVED, updatedAt := 50, version := 4,
         entries := entries exampleReport @ [exampleEntry ''e4'' HIGH]\<rparr>"
    by (simp add: applyUpdate_def emptyBody_def candidateEntries_def exampleReport_def)
  ultimately show ?thesis
    using 1 by simp
qed

subsection \<open>The version counter\<close>

text \<open>
  C2, as the spec states it, fails for attachment upload: a successful upload rewrites the
  stored report (attachment list and \<^verbatim>\<open>updatedAt\<close>) and leaves its version at 3.
\<close>

theorem upload_keeps_version_counterexample:
  "fst (uploadAttachment 50 ''f1'' ''r1'' (Some exampleFile) ''u1'' (exampleStore, emptyFiles)) =
     UploadResponse 201 (fst (storeFile ''f1'' 50 exampleFile ''r1'' ''u1'' emptyFiles))
   \<and> DataStore_getReport exampleStore ''r1'' = Some exampleReport
   \<and> DataStore_getReport
       (fst (snd (uploadAttachment 50 ''f1'' ''r1'' (Some exampleFile) ''u1''
          (exampleStore, emptyFiles)))) ''r1'' =
     Some (exampleReport\<lparr>attachments := [''f1''], updatedAt := 50\<rparr>)
   \<and> exampleReport\<lparr>attachments := [''f1''], updatedAt := 50\<rparr> \<noteq> exampleReport
   \<and> version (exampleReport\<lparr>attachments := [''f1''], updatedAt := 50\<rparr>) = version exampleReport
   \<and> version (exampleReport\<lparr>attachments := [''f1''], updatedAt := 50\<rparr>) \<noteq> version exampleReport + 1"
  by (simp add: uploadAttachment_def exampleStore_r1 validateFileType_def allowedMimeTypes_def
      validateFileSize_def exampleFile_def storeFile_def Let_def DataStore_updateReport_def
      DataStore_getReport_def exampleStore_def exampleReport_def)

text \<open>
  C2, amended. \<^verbatim>\<open>updateReport\<close> either answers 200 and stores the report with its version
  raised by exactly 1, or answers an error and returns the store unchanged. \<^verbatim>\<open>uploadAttachment\<close>
  either answers an error and changes nothing, or answers 201 and stores the report with the
  attachment appended, \<^verbatim>\<open>updatedAt\<close> set and the version as it was; it takes no version from
  the caller.
\<close>

theorem version_raised_by_update_only:
  "(updateReport now i body ds = (ReportResponse c r', ds') \<longrightarrow>
      (\<exists>r. DataStore_getReport ds i = Some r \<and> DataStore_getReport ds' i = Some r'
            \<and> version r' = version r + 1))
   \<and> (updateReport now i body ds = (ErrorResponse c k m d, ds') \<longrightarrow> ds' = ds)
   \<and> updateReport now i body ds \<noteq> (UploadResponse c md, ds')
   \<and> (uploadAttachment now fileId i f userId (ds, fs) = (UploadResponse c md, ds', fs') \<longrightarrow>
      (\<exists>r. DataStore_getReport ds i = Some r
            \<and> DataStore_getReport ds' i =
                Some (r\<lparr>attachments := attachments r @ [fileId], updatedAt := now\<rparr>)
            \<and> version (r\<lparr>attachments := attachments r @ [fileId], updatedAt := now\<rparr>) = version r))
   \<and> (uploadAttachment now fileId i f userId (ds, fs) = (ErrorResponse c k m d, ds', fs') \<longrightarrow>
      ds' = ds \<and> fs' = fs)
   \<and> uploadAttachment now fileId i f userId (ds, fs) \<noteq> (ReportResponse c r', ds', fs')"
proof (intro conjI impI)
  assume "updateReport now i body ds = (ReportResponse c r', ds')"
  then show "\<exists>r. DataStore_getReport ds i = Some r \<and> DataStore_getReport ds' i = Some r'
      \<and> version r' = version r + 1"
    by (auto simp: updateReport_def DataStore_getReport_def DataStore_updateReport_def
        applyUpdate_def Let_def dest: statusRejection_error split: option.splits if_splits)
next
  assume "updateReport now i body ds = (ErrorResponse c k m d, ds')"
  then show "ds' = ds"
    by (auto simp: updateReport_def Let_def split: option.splits if_splits)
next
  show "updateReport now i body ds \<noteq> (UploadResponse c md, ds')"
    by (auto simp: updateReport_def Let_def dest: statusRejection_error
        split: option.splits if_splits)
next
  assume "uploadAttachment now fileId i f userId (ds, fs) = (UploadResponse c md, ds', fs')"
  then show "\<exists>r. DataStore_getReport ds i = Some r
      \<and> DataStore_getReport ds' i =
          Some (r\<lparr>attachments := attachments r @ [fileId], updatedAt := now\<rparr>)
      \<and> version (r\<lparr>attachments := attachments r @ [fileId], updatedAt := now\<rparr>) = version r"
    by (auto simp: uploadAttachment_def storeFile_def Let_def DataStore_getReport_def
        DataStore_updateReport_def split: option.splits if_splits)
next
  assume "uploadAttachment now fileId i f userId (ds, fs) = (ErrorResponse c k m d, ds', fs')"
  then have "ds' = ds \<and> fs' = fs"
    by (auto simp: uploadAttachment_def storeFile_def Let_def split: option.splits if_splits)
  then show "ds' = ds" and "fs' = fs"
    by simp_all
next
  show "uploadAttachment now fileId i f userId (ds, fs) \<noteq> (ReportResponse c r', ds', fs')"
    by (auto simp: uploadAttachment_def storeFile_def Let_def split: option.splits if_splits)
qed

theorem version_raised_by_update_only_witness:
  "(\<exists>r. DataStore_getReport exampleStore ''r1'' = Some r
        \<and> DataStore_getReport
             (DataStore_updateReport exampleStore ''r1''
                (exampleReport\<lparr>title := ''New'', updatedAt := 50, version := 4\<rparr>)) ''r1'' =
            Some (exampleReport\<lparr>title := ''New'', updatedAt := 50, version := 4\<rparr>)
        \<and> version (exampleReport\<lparr>title := ''New'', updatedAt := 50, version := 4\<rparr>) = version r + 1)
   \<and> updateReport 50 ''r1'' (emptyBody\<lparr>dto_title := Some ''New'', dto_version := Some 3\<rparr>)
        exampleStore =
       (ReportResponse 200 (exampleReport\<lparr>title := ''New'', updatedAt := 50, version := 4\<rparr>),
        DataStore_updateReport exampleStore ''r1''
          (exampleReport\<lparr>title := ''New'', updatedAt := 50, version := 4\<rparr>))
   \<and> (\<exists>r. DataStore_getReport exampleStore ''r1'' = Some r
        \<and> DataStore_getReport
             (DataStore_updateReport exampleStore ''r1''
                (exampleReport\<lparr>attachments := [''f1''], updatedAt := 50\<rparr>)) ''r1'' =
            Some (r\<lparr>attachments := attachments r @ [''f1''], updatedAt := 50\<rparr>)
        \<and> version (r\<lparr>attachments := attachments r @ [''f1''], updatedAt := 50\<rparr>) = version r)
   \<and> fst (uploadAttachment 50 ''f1'' ''r1'' (Some exampleFile) ''u1'' (exampleStore, emptyFiles)) =
       UploadResponse 201 (fst (storeFile ''f1'' 50 exampleFile ''r1'' ''u1'' emptyFiles))
   \<and> updateReport 50 ''r1'' (emptyBody\<lparr>dto_title := Some ''New'', dto_version := Some 1\<rparr>)
        exampleStore =
       (ErrorResponse 409 ''CONFLICT'' (Some ''Report has been modified by another user'')
          (Some (VersionDetails 3 1)), exampleStore)
   \<and> uploadAttachment 50 ''f1'' ''r9'' (Some exampleFile) ''u1'' (exampleStore, emptyFiles) =
       (ErrorResponse 404 ''NOT_FOUND'' (Some ''Report not found'') None, exampleStore, emptyFiles)"
proof -
  let ?ok = "emptyBody\<lparr>dto_title := Some ''New'', dto_version := Some 3\<rparr>"
  let ?r' = "exampleReport\<lparr>title := ''New'', updatedAt := 50, version := 4\<rparr>"
  let ?ds1 = "DataStore_updateReport exampleStore ''r1'' ?r'"
  let ?md = "fst (storeFile ''f1'' 50 exampleFile ''r1'' ''u1'' emptyFiles)"
  let ?ds2 = "DataStore_updateReport exampleStore ''r1''
      (exampleReport\<lparr>attachments := [''f1''], updatedAt := 50\<rparr>)"
  let ?fs2 = "snd (storeFile ''f1'' 50 exampleFile ''r1'' ''u1'' emptyFiles)"
  have ver: "version exampleReport = 3"
    by (simp add: exampleReport_def)
  have applied: "applyUpdate 50 exampleReport ?ok = ?r'"
    by (simp add: applyUpdate_def emptyBody_def candidateEntries_def exampleReport_def)
  have rej: "statusRejection exampleReport ?ok = None"
    by (simp add: statusRejection_def emptyBody_def)
  have v: "dto_version ?ok = Some 3"
    by (simp add: emptyBody_def)
  have ok: "updateReport 50 ''r1'' ?ok exampleStore = (ReportResponse 200 ?r', ?ds1)"
    unfolding updateReport_def by (simp add: v exampleStore_r1 ver rej applied Let_def)
  have att: "attachments exampleReport = []"
    by (simp add: exampleReport_def)
  have ft: "validateFileType (mimetype exampleFile)" "validateFileSize (size exampleFile)"
    by (simp_all add: validateFileType_def allowedMimeTypes_def validateFileSize_def exampleFile_def)
  have up: "uploadAttachment 50 ''f1'' ''r1'' (Some exampleFile) ''u1'' (exampleStore, emptyFiles) =
      (UploadResponse 201 ?md, ?ds2, ?fs2)"
    unfolding uploadAttachment_def
    by (simp add: exampleStore_r1 ft att Let_def split_beta) (simp add: storeFile_def Let_def)
  note a = version_raised_by_update_only
    [where now = 50 and i = "''r1''" and body = ?ok and ds = exampleStore and c = 200
       and r' = ?r' and ds' = ?ds1, THEN conjunct1]
  note c = version_raised_by_update_only
    [where now = 50 and i = "''r1''" and fileId = "''f1''" and f = "Some exampleFile"
       and userId = "''u1''" and ds = exampleStore and fs = emptyFiles and c = 201 and md = ?md
       and ds' = ?ds2 and fs' = ?fs2,
     THEN conjunct2, THEN conjunct2, THEN conjunct2, THEN conjunct1]
  from a ok have 1: "\<exists>r. DataStore_getReport exampleStore ''r1'' = Some r
      \<and> DataStore_getReport ?ds1 ''r1'' = Some ?r' \<and> version ?r' = version r + 1"
    by (rule mp)
  from c up have "\<exists>r. DataStore_getReport exampleStore ''r1'' = Some r
      \<and> DataStore_getReport ?ds2 ''r1'' =
          Some (r\<lparr>attachments := attachments r @ [''f1''], updatedAt := 50\<rparr>)
      \<and> version (r\<lparr>attachments := attachments r @ [''f1''], updatedAt := 50\<rparr>) = version r"
    by (rule mp)
  note 2 = this
  let ?stale = "emptyBody\<lparr>dto_title := Some ''New'', dto_version := Some 1\<rparr>"
  have "dto_version ?stale = Some 1"
    by (simp add: emptyBody_def)
  then have "snd (updateReport 50 ''r1'' ?stale exampleStore) = exampleStore
      \<and> fst (updateReport 50 ''r1'' ?stale exampleStore) =
          ErrorResponse 409 ''CONFLICT'' (Some ''Report has been modified by another user'')
            (Some (VersionDetails 3 1))"
    unfolding updateReport_def by (simp add: exampleStore_r1 ver)
  then have stale: "updateReport 50 ''r1'' ?stale exampleStore =
      (ErrorResponse 409 ''CONFLICT'' (Some ''Report has been modified by another user'')
         (Some (VersionDetails 3 1)), snd (updateReport 50 ''r1'' ?stale exampleStore))"
    by (simp add: prod_eq_iff)
  note b = version_raised_by_update_only
    [where now = 50 and i = "''r1''" and body = ?stale and ds = exampleStore and c = 409
       and k = "''CONFLICT''" and m = "Some ''Report has been modified by another user''"
       and d = "Some (VersionDetails 3 1)"
       and ds' = "snd (updateReport 50 ''r1'' ?stale exampleStore)",
     THEN conjunct2, THEN conjunct1]
  from b stale have "snd (updateReport 50 ''r1'' ?stale exampleStore) = exampleStore"
    by (rule mp)
  with stale have 3: "updateReport 50 ''r1'' ?stale exampleStore =
      (ErrorResponse 409 ''CONFLICT'' (Some ''Report has been modified by another user'')
         (Some (VersionDetails 3 1)), exampleStore)"
    by simp
  let ?miss = "uploadAttachment 50 ''f1'' ''r9'' (Some exampleFile) ''u1'' (exampleStore, emptyFiles)"
  have "fst ?miss = ErrorResponse 404 ''NOT_FOUND'' (Some ''Report not found'') None"
    unfolding uploadAttachment_def by (simp add: exampleStore_r9)
  then have miss: "?miss = (ErrorResponse 404 ''NOT_FOUND'' (Some ''Report not found'') None,
      fst (snd ?miss), snd (snd ?miss))"
    by (simp add: prod_eq_iff)
  note d = version_raised_by_update_only
    [where now = 50 and i = "''r9''" and fileId = "''f1''" and f = "Some exampleFile"
       and userId = "''u1''" and ds = exampleStore and fs = emptyFiles and c = 404
       and k = "''NOT_FOUND''" and m = "Some ''Report not found''" and d = None
       and ds' = "fst (snd ?miss)" and fs' = "snd (snd ?miss)",
     THEN conjunct2, THEN conjunct2, THEN conjunct2, THEN conjunct2, THEN conjunct1]
  from d miss have "fst (snd ?miss) = exampleStore \<and> snd (snd ?miss) = emptyFiles"
    by (rule mp)
  with miss have 4: "?miss =
      (ErrorResponse 404 ''NOT_FOUND'' (Some ''Report not found'') None, exampleStore, emptyFiles)"
    by simp
  from 1 2 3 4 ok up show ?thesis
    by simp
qed

subsection \<open>The task queue engine\<close>

text \<open>The two ways a suspended \<^verbatim>\<open>processQueue\<close> goes on.\<close>

lemma failTask_fields [simp]:
  "attempts (failTask msg task) = attempts task + 1"
  "maxAttempts (failTask msg task) = maxAttempts task"
  "task_id (failTask msg task) = task_id task"
  by (simp_all add: failTask_def Let_def)

lemma resumeProcessQueue_Resolved:
  "resumeProcessQueue task Resolved s = setTimeout CallProcessQueue 100 s"
  by (simp add: resumeProcessQueue_def)

lemma resumeProcessQueue_Rejected:
  "resumeProcessQueue task (Rejected msg) s =
     setTimeout CallProcessQueue 100
       (if maxAttempts task \<le> attempts task + 1
        then s\<lparr>deadLetterQueue := deadLetterQueue s @ [failTask msg task]\<rparr>
        else setTimeout (UnshiftTask (failTask msg task)) (backoffDelay (failTask msg task)) s)"
  by (simp add: resumeProcessQueue_def failTask_def backoffDelay_def Let_def)

lemma callbackTasks_insertTimer:
  "mset (concat (map (\<lambda>t. callbackTasks (snd t)) (insertTimer x xs))) =
     mset (callbackTasks (snd x)) + mset (concat (map (\<lambda>t. callbackTasks (snd t)) xs))"
  by (induction xs) auto

lemma heldTasks_setTimeout:
  "mset (heldTasks (setTimeout cb d s)) = mset (callbackTasks cb) + mset (heldTasks s)"
  by (simp add: heldTasks_def setTimeout_def callbackTasks_insertTimer)

lemma heldTasks_processQueue:
  "image_mset task_id (mset (heldTasks (processQueue h s))) =
     image_mset task_id (mset (heldTasks s))"
proof (cases "queue s")
  case Nil
  then show ?thesis
    by (simp add: processQueue_def heldTasks_def)
next
  case (Cons task rest)
  then show ?thesis
    by (simp add: processQueue_def Let_def heldTasks_setTimeout)
      (simp add: heldTasks_def)
qed

lemma heldTasks_enqueue:
  "image_mset task_id (mset (heldTasks (enqueue h task s))) =
     add_mset (task_id task) (image_mset task_id (mset (heldTasks s)))"
proof -
  have "image_mset task_id (mset (heldTasks (s\<lparr>queue := queue s @ [task]\<rparr>))) =
      add_mset (task_id task) (image_mset task_id (mset (heldTasks s)))"
    by (simp add: heldTasks_def)
  then show ?thesis
    by (simp add: enqueue_def Let_def heldTasks_processQueue)
qed

lemma deadLetterQueue_setTimeout [simp]:
  "deadLetterQueue (setTimeout cb d s) = deadLetterQueue s"
  "queue (setTimeout cb d s) = queue s"
  "processing (setTimeout cb d s) = processing s"
  "clock (setTimeout cb d s) = clock s"
  by (simp_all add: setTimeout_def)

lemma deadLetterQueue_processQueue: "deadLetterQueue (processQueue h s) = deadLetterQueue s"
  by (simp add: processQueue_def Let_def split: list.splits)

lemma deadLetterQueue_enqueue: "deadLetterQueue (enqueue h task s) = deadLetterQueue s"
  by (simp add: enqueue_def Let_def deadLetterQueue_processQueue)

lemma deadLetterQueue_resume:
  "prefix (deadLetterQueue s) (deadLetterQueue (resumeProcessQueue task out s))"
  by (cases out) (simp_all add: resumeProcessQueue_Resolved resumeProcessQueue_Rejected)

lemma deadLetterQueue_tick: "prefix (deadLetterQueue s) (deadLetterQueue (tick h s))"
proof (cases "timers s")
  case Nil
  then show ?thesis by (simp add: tick_def)
next
  case (Cons t rest)
  obtain due cb where t: "t = (due, cb)" by (cases t)
  let ?s = "s\<lparr>timers := rest, clock := max (clock s) due\<rparr>"
  have "prefix (deadLetterQueue ?s) (deadLetterQueue (fire h cb ?s))"
  proof (cases cb)
    case (ResumeProcessQueue task out)
    with deadLetterQueue_resume [of ?s task out] show ?thesis
      by (simp add: fire_def)
  qed (simp_all add: fire_def deadLetterQueue_processQueue)
  with Cons t show ?thesis
    by (simp add: tick_def)
qed

lemma deadLetterQueue_applyEvent:
  "prefix (deadLetterQueue s) (deadLetterQueue (applyEvent h e s))"
  by (cases e) (simp_all add: applyEvent_def deadLetterQueue_enqueue deadLetterQueue_tick)

lemma deadLetterQueue_runEvents:
  "prefix (deadLetterQueue s) (deadLetterQueue (runEvents h evs s))"
proof (induction evs arbitrary: s)
  case Nil
  show ?case by simp
next
  case (Cons e evs)
  have "prefix (deadLetterQueue s) (deadLetterQueue (applyEvent h e s))"
    by (rule deadLetterQueue_applyEvent)
  also have "prefix \<dots> (deadLetterQueue (runEvents h evs (applyEvent h e s)))"
    by (rule Cons.IH)
  finally show ?case by simp
qed

lemma runEvents_append: "runEvents h (es @ fs) s = runEvents h fs (runEvents h es s)"
  by (induction es arbitrary: s) simp_all

lemma tick_idle: "timers s = [] \<Longrightarrow> tick h s = s"
  by (simp add: tick_def)

lemma runEvents_idle: "timers s = [] \<Longrightarrow> runEvents h (replicate n TimerFires) s = s"
  by (induction n) (simp_all add: applyEvent_def tick_idle)

lemma poison_first_run:
  "runEvents executeTask [EnqueueAt 0 poisonTask, TimerFires, TimerFires, TimerFires] idleEngine =
     strandedEngine"
  by (simp add: applyEvent_def enqueue_def idleEngine_def processQueue_def Let_def setTimeout_def
      executeTask_def poisonTask_def sendNotification_def readPayload_def tick_def fire_def
      resumeProcessQueue_Resolved resumeProcessQueue_Rejected failTask_def backoffDelay_def strandedEngine_def)

lemma set_insertTimer: "set (insertTimer x xs) = insert x (set xs)"
  by (induction xs) auto

lemma null_payload_always_rejected: "payload t = None \<Longrightarrow> snd (executeTask t) \<noteq> Resolved"
  by (simp add: executeTask_def sendNotification_def invalidateCache_def generatePreview_def
      readPayload_def split: TaskType.splits)

lemma retry_resumes_on_next_enqueue:
  "deadLetterQueue (runEvents executeTask
      (EnqueueAt 5000 goodTask # replicate 2 TimerFires) strandedEngine) =
     [poisonTask\<lparr>task_status := DEAD_LETTER, attempts := 2,
        task_error := Some (''Cannot read properties of null (reading '' @ quoted ''reportId'' @ '')'')\<rparr>]"
  by (simp add: numeral_2_eq_2 applyEvent_def enqueue_def processQueue_def Let_def setTimeout_def
      executeTask_def poisonTask_def goodTask_def sendNotification_def readPayload_def tick_def
      fire_def resumeProcessQueue_Resolved resumeProcessQueue_Rejected failTask_def backoffDelay_def strandedEngine_def)

text \<open>
  The last failed attempt dead-letters the task and registers no reinsertion, so a
  dead-lettered task is not run again.
\<close>

lemma last_attempt_dead_letters:
  assumes "maxAttempts task \<le> attempts task + 1"
  shows "resumeProcessQueue task (Rejected msg) s =
     setTimeout CallProcessQueue 100
       (s\<lparr>deadLetterQueue := deadLetterQueue s
          @ [task\<lparr>attempts := attempts task + 1, task_error := Some msg,
                  task_status := DEAD_LETTER\<rparr>]\<rparr>)"
  using assms by (simp add: resumeProcessQueue_Resolved resumeProcessQueue_Rejected failTask_def Let_def)

text \<open>
  Whatever the handler and its duration: a task that fails its first attempt with attempts
  left, alone on the engine, is reinserted after the driver has stopped. The driver comes
  100 ms after the failure, the reinsertion at least 2000 ms after it.
\<close>

lemma lone_failing_task_is_stranded:
  assumes "snd (h (task\<lparr>task_status := PROCESSING\<rparr>)) = Rejected msg"
    and "attempts task + 1 < maxAttempts task"
  shows "runEvents h (EnqueueAt t0 task # replicate (3 + n) TimerFires) idleEngine =
     \<lparr>queue = [failTask msg (task\<lparr>task_status := PROCESSING\<rparr>)], processing = False,
      deadLetterQueue = [], timers = [],
      clock = t0 + fst (h (task\<lparr>task_status := PROCESSING\<rparr>)) + 2 ^ (attempts task + 1) * 1000\<rparr>"
proof -
  let ?task = "task\<lparr>task_status := PROCESSING\<rparr>"
  let ?failed = "failTask msg ?task"
  let ?d = "fst (h ?task)"
  let ?b = "2 ^ (attempts task + 1) * 1000 :: nat"
  from assms(2) have retry: "\<not> maxAttempts ?failed \<le> attempts ?failed"
    and delay: "backoffDelay ?failed = ?b"
    by (simp_all add: failTask_def Let_def backoffDelay_def)
  have "(1::nat) \<le> 2 ^ (attempts task + 1)"
    by (rule one_le_power) simp
  then have later: "100 < ?b"
    by linarith
  have 1: "applyEvent h (EnqueueAt t0 task) idleEngine =
      \<lparr>queue = [], processing = True, deadLetterQueue = [],
       timers = [(t0 + ?d, ResumeProcessQueue ?task (Rejected msg))], clock = t0\<rparr>"
    using assms(1)
    by (simp add: applyEvent_def enqueue_def idleEngine_def processQueue_def Let_def setTimeout_def)
  have 2: "tick h \<lparr>queue = [], processing = True, deadLetterQueue = [],
       timers = [(t0 + ?d, ResumeProcessQueue ?task (Rejected msg))], clock = t0\<rparr> =
      \<lparr>queue = [], processing = True, deadLetterQueue = [],
       timers = [(t0 + ?d + 100, CallProcessQueue), (t0 + ?d + ?b, UnshiftTask ?failed)],
       clock = t0 + ?d\<rparr>"
    using retry later
    by (simp add: tick_def fire_def resumeProcessQueue_Resolved resumeProcessQueue_Rejected Let_def setTimeout_def delay)
  have 3: "tick h \<lparr>queue = [], processing = True, deadLetterQueue = [],
       timers = [(t0 + ?d + 100, CallProcessQueue), (t0 + ?d + ?b, UnshiftTask ?failed)],
       clock = t0 + ?d\<rparr> =
      \<lparr>queue = [], processing = False, deadLetterQueue = [],
       timers = [(t0 + ?d + ?b, UnshiftTask ?failed)], clock = t0 + ?d + 100\<rparr>"
    by (simp add: tick_def fire_def processQueue_def)
  have 4: "tick h \<lparr>queue = [], processing = False, deadLetterQueue = [],
       timers = [(t0 + ?d + ?b, UnshiftTask ?failed)], clock = t0 + ?d + 100\<rparr> =
      \<lparr>queue = [?failed], processing = False, deadLetterQueue = [], timers = [],
       clock = t0 + ?d + ?b\<rparr>"
    using later by (simp add: tick_def fire_def max_def)
  have "replicate (3 + n) TimerFires = [TimerFires, TimerFires, TimerFires] @ replicate n TimerFires"
    by (simp add: numeral_3_eq_3)
  then have "runEvents h (EnqueueAt t0 task # replicate (3 + n) TimerFires) idleEngine =
      runEvents h (replicate n TimerFires)
        (tick h (tick h (tick h (applyEvent h (EnqueueAt t0 task) idleEngine))))"
    by (simp add: runEvents_append applyEvent_def)
  also have "\<dots> = runEvents h (replicate n TimerFires)
      \<lparr>queue = [?failed], processing = False, deadLetterQueue = [], timers = [],
       clock = t0 + ?d + ?b\<rparr>"
    by (simp only: 1 2 3 4)
  also have "\<dots> = \<lparr>queue = [?failed], processing = False, deadLetterQueue = [], timers = [],
       clock = t0 + ?d + ?b\<rparr>"
    by (rule runEvents_idle) simp
  finally show ?thesis .
qed

text \<open>
  C4. A task whose handler throws on every attempt (its payload is \<^verbatim>\<open>null\<close>), with
  \<^verbatim>\<open>maxAttempts = 2\<close>, is enqueued on an idle engine. The first attempt fails at 500 ms and
  schedules the reinsertion for 2500 ms; the driver, called at 600 ms, finds the pending
  sequence empty and stops. The reinsertion at 2500 ms calls no driver: however many turns
  the event loop takes afterwards, the task stays pending with status \<^verbatim>\<open>FAILED\<close> after one
  attempt, and the dead-letter collection stays empty.
\<close>

theorem always_failing_task_is_stranded:
  "runEvents executeTask (EnqueueAt 0 poisonTask # replicate (3 + n) TimerFires) idleEngine =
     strandedEngine
   \<and> map task_id (queue strandedEngine) = [task_id poisonTask]
   \<and> map task_status (queue strandedEngine) = [FAILED]
   \<and> map attempts (queue strandedEngine) = [1]
   \<and> maxAttempts poisonTask = 2
   \<and> timers strandedEngine = []
   \<and> getDeadLetterQueue strandedEngine = []
   \<and> getStatus strandedEngine = (1, False, 0)"
proof -
  have "replicate (3 + n) TimerFires = [TimerFires, TimerFires, TimerFires] @ replicate n TimerFires"
    by (simp add: numeral_3_eq_3)
  then have "runEvents executeTask (EnqueueAt 0 poisonTask # replicate (3 + n) TimerFires) idleEngine =
      runEvents executeTask (replicate n TimerFires)
        (runEvents executeTask [EnqueueAt 0 poisonTask, TimerFires, TimerFires, TimerFires] idleEngine)"
    using runEvents_append [of executeTask "[EnqueueAt 0 poisonTask, TimerFires, TimerFires, TimerFires]"
        "replicate n TimerFires" idleEngine]
    by simp
  also have "\<dots> = strandedEngine"
    unfolding poison_first_run by (rule runEvents_idle) (simp add: strandedEngine_def)
  finally show ?thesis
    by (simp add: strandedEngine_def poisonTask_def getStatus_def getDeadLetterQueue_def)
qed

subsubsection \<open>Every registered timer runs\<close>

lemma sorted_insertTimer: "sorted (map fst xs) \<Longrightarrow> sorted (map fst (insertTimer y xs))"
  by (induction xs) (auto simp: set_insertTimer)

lemma insertTimer_before:
  "fst y < fst x \<Longrightarrow> insertTimer y (pre @ x # post) = insertTimer y pre @ x # post"
  by (induction pre) auto

lemma insertTimer_after:
  "sorted (map fst (pre @ x # post)) \<Longrightarrow> fst x \<le> fst y \<Longrightarrow>
     insertTimer y (pre @ x # post) = pre @ x # insertTimer y post"
  by (induction pre) auto

lemma aheadWeight_insertTimer:
  "aheadWeight D (insertTimer y pre) = callbackWeight D y + aheadWeight D pre"
  by (induction pre) (auto simp: aheadWeight_def)

text \<open>Registering a timer keeps a registered one in place; it may add to what runs before it.\<close>

lemma setTimeout_split:
  assumes "timers s = pre @ x # post" and "sorted (map fst (timers s))"
    and "list_all (\<lambda>t. clock s \<le> fst t) (timers s)"
  shows "\<exists>pre' post'. timers (setTimeout cb d s) = pre' @ x # post'
      \<and> sorted (map fst (timers (setTimeout cb d s)))
      \<and> list_all (\<lambda>t. clock s \<le> fst t) (timers (setTimeout cb d s))
      \<and> aheadWeight (fst x) pre' =
          aheadWeight (fst x) pre
            + (if clock s + d < fst x then callbackWeight (fst x) (clock s + d, cb) else 0)"
proof (cases "clock s + d < fst x")
  case True
  then have "timers (setTimeout cb d s) = insertTimer (clock s + d, cb) pre @ x # post"
    using assms(1) by (simp add: setTimeout_def insertTimer_before)
  moreover have "sorted (map fst (timers (setTimeout cb d s)))"
    using assms(2) by (simp add: setTimeout_def sorted_insertTimer)
  moreover have "list_all (\<lambda>t. clock s \<le> fst t) (timers (setTimeout cb d s))"
    using assms(3) by (simp add: setTimeout_def list_all_iff set_insertTimer)
  ultimately show ?thesis
    using True by (auto simp: aheadWeight_insertTimer)
next
  case False
  then have "timers (setTimeout cb d s) = pre @ x # insertTimer (clock s + d, cb) post"
    using assms(1,2) by (simp add: setTimeout_def insertTimer_after)
  moreover have "sorted (map fst (timers (setTimeout cb d s)))"
    using assms(2) by (simp add: setTimeout_def sorted_insertTimer)
  moreover have "list_all (\<lambda>t. clock s \<le> fst t) (timers (setTimeout cb d s))"
    using assms(3) by (simp add: setTimeout_def list_all_iff set_insertTimer)
  ultimately show ?thesis
    using False by auto
qed

lemma waiting_setTimeout:
  assumes "waiting s x w"
  shows "waiting (setTimeout cb d s) x
           (w + (if clock s + d < fst x then callbackWeight (fst x) (clock s + d, cb) else 0))"
proof -
  from assms obtain pre post where pre: "timers s = pre @ x # post"
    and w: "aheadWeight (fst x) pre \<le> w" and ord: "timersOrdered s"
    by (auto simp: waiting_def)
  from ord have "sorted (map fst (timers s))" "list_all (\<lambda>t. clock s \<le> fst t) (timers s)"
    by (simp_all add: timersOrdered_def)
  from setTimeout_split [OF pre this, of cb d]
  obtain pre' post' where "timers (setTimeout cb d s) = pre' @ x # post'"
    "sorted (map fst (timers (setTimeout cb d s)))"
    "list_all (\<lambda>t. clock s \<le> fst t) (timers (setTimeout cb d s))"
    "aheadWeight (fst x) pre' =
       aheadWeight (fst x) pre
         + (if clock s + d < fst x then callbackWeight (fst x) (clock s + d, cb) else 0)"
    by blast
  with w show ?thesis
    unfolding waiting_def timersOrdered_def
    by (intro exI [of _ pre'] exI [of _ post']) (simp add: setTimeout_def)
qed

lemma waiting_mono: "waiting s x w \<Longrightarrow> w \<le> w' \<Longrightarrow> waiting s x w'"
  by (auto simp: waiting_def)

lemma waiting_fields:
  "waiting (s\<lparr>queue := q\<rparr>) x w = waiting s x w"
  "waiting (s\<lparr>processing := p\<rparr>) x w = waiting s x w"
  "waiting (s\<lparr>deadLetterQueue := dl\<rparr>) x w = waiting s x w"
  by (simp_all add: waiting_def timersOrdered_def)

text \<open>Running a callback that was due at \<open>t0\<close> adds less to the wait than its own weight.\<close>

lemma waiting_fire:
  assumes "waiting s x w" and "t0 \<le> clock s" and "t0 \<le> fst x"
  shows "\<exists>w'. waiting (fire h cb s) x w' \<and> w' < w + callbackWeight (fst x) (t0, cb)"
proof (cases cb)
  case (UnshiftTask task)
  with assms(1) show ?thesis
    by (auto simp: fire_def waiting_fields)
next
  case CallProcessQueue
  show ?thesis
  proof (cases "queue s")
    case Nil
    with assms(1) CallProcessQueue show ?thesis
      by (auto simp: fire_def processQueue_def waiting_fields)
  next
    case (Cons task rest)
    let ?task = "task\<lparr>task_status := PROCESSING\<rparr>"
    let ?s = "s\<lparr>processing := True, queue := rest\<rparr>"
    let ?add = "(if clock s + fst (h ?task) < fst x
        then callbackWeight (fst x) (clock s + fst (h ?task),
               ResumeProcessQueue ?task (snd (h ?task))) else 0)"
    have eq: "fire h cb s =
        setTimeout (ResumeProcessQueue ?task (snd (h ?task))) (fst (h ?task)) ?s"
      using Cons CallProcessQueue by (simp add: fire_def processQueue_def Let_def)
    have clk: "clock ?s = clock s"
      by simp
    from assms(1) have "waiting ?s x w"
      by (simp add: waiting_fields)
    from waiting_setTimeout [OF this, of "ResumeProcessQueue ?task (snd (h ?task))" "fst (h ?task)"]
    have "waiting (fire h cb s) x (w + ?add)"
      by (simp only: eq clk)
    moreover have "?add < callbackWeight (fst x) (t0, cb)"
      using assms(2,3) CallProcessQueue by auto
    ultimately show ?thesis
      by (meson add_strict_left_mono)
  qed
next
  case (ResumeProcessQueue task out)
  let ?call = "(if clock s + 100 < fst x
      then callbackWeight (fst x) (clock s + 100, CallProcessQueue) else 0)"
  have call: "?call < callbackWeight (fst x) (t0, cb)"
    using assms(2,3) ResumeProcessQueue by auto
  show ?thesis
  proof (cases out)
    case Resolved
    have eq: "fire h cb s = setTimeout CallProcessQueue 100 s"
      using ResumeProcessQueue Resolved by (simp add: fire_def resumeProcessQueue_Resolved resumeProcessQueue_Rejected)
    from waiting_setTimeout [OF assms(1), of CallProcessQueue 100]
    have "waiting (fire h cb s) x (w + ?call)"
      by (simp only: eq)
    with call show ?thesis
      by (meson add_strict_left_mono)
  next
    case (Rejected msg)
    let ?t = "failTask msg task"
    show ?thesis
    proof (cases "attempts ?t \<ge> maxAttempts ?t")
      case True
      let ?s = "s\<lparr>deadLetterQueue := deadLetterQueue s @ [?t]\<rparr>"
      have eq: "fire h cb s = setTimeout CallProcessQueue 100 ?s"
        using ResumeProcessQueue Rejected True
        by (simp add: fire_def resumeProcessQueue_Resolved resumeProcessQueue_Rejected Let_def)
      have clk: "clock ?s = clock s"
        by simp
      from assms(1) have "waiting ?s x w"
        by (simp add: waiting_fields)
      from waiting_setTimeout [OF this, of CallProcessQueue 100]
      have "waiting (fire h cb s) x (w + ?call)"
        by (simp only: eq clk)
      with call show ?thesis
        by (meson add_strict_left_mono)
    next
      case False
      let ?s = "setTimeout (UnshiftTask ?t) (backoffDelay ?t) s"
      let ?retry = "(if clock s + backoffDelay ?t < fst x
          then callbackWeight (fst x) (clock s + backoffDelay ?t, UnshiftTask ?t) else 0)"
      have eq: "fire h cb s = setTimeout CallProcessQueue 100 ?s"
        using ResumeProcessQueue Rejected False
        by (simp add: fire_def resumeProcessQueue_Resolved resumeProcessQueue_Rejected Let_def)
      have clk: "clock ?s = clock s"
        by simp
      from waiting_setTimeout [OF assms(1), of "UnshiftTask ?t" "backoffDelay ?t"]
      have "waiting ?s x (w + ?retry)" .
      from waiting_setTimeout [OF this, of CallProcessQueue 100]
      have "waiting (fire h cb s) x (w + ?retry + ?call)"
        by (simp only: eq clk)
      moreover have "0 < backoffDelay ?t"
        by (simp add: backoffDelay_def)
      then have "?retry + ?call < callbackWeight (fst x) (t0, cb)"
        using assms(2,3) ResumeProcessQueue by auto
      ultimately show ?thesis
        by (metis add.assoc add_strict_left_mono)
    qed
  qed
qed

lemma timersOrdered_setTimeout: "timersOrdered s \<Longrightarrow> timersOrdered (setTimeout cb d s)"
  by (simp add: timersOrdered_def setTimeout_def sorted_insertTimer list_all_iff set_insertTimer)

lemma waiting_tick:
  assumes "timers s = ((t0, c0) # pre) @ x # post" and "timersOrdered s"
  shows "\<exists>w'. waiting (tick h s) x w' \<and> w' < aheadWeight (fst x) ((t0, c0) # pre)"
proof -
  let ?s = "s\<lparr>timers := pre @ x # post, clock := max (clock s) t0\<rparr>"
  from assms have sorted: "sorted (map fst ((t0, c0) # pre @ x # post))"
    and late: "list_all (\<lambda>t. clock s \<le> fst t) ((t0, c0) # pre @ x # post)"
    by (simp_all add: timersOrdered_def)
  from sorted have first: "\<forall>t \<in> set (pre @ x # post). t0 \<le> fst t"
    by auto
  with late have "list_all (\<lambda>t. max (clock s) t0 \<le> fst t) (pre @ x # post)"
    by (auto simp: list_all_iff)
  with sorted have "timersOrdered ?s"
    by (simp add: timersOrdered_def)
  then have "waiting ?s x (aheadWeight (fst x) pre)"
    by (auto simp: waiting_def)
  moreover have "t0 \<le> clock ?s"
    by simp
  moreover from first have "t0 \<le> fst x"
    by simp
  ultimately obtain w' where "waiting (fire h c0 ?s) x w'"
    and "w' < aheadWeight (fst x) pre + callbackWeight (fst x) (t0, c0)"
    using waiting_fire by blast
  moreover have "tick h s = fire h c0 ?s"
    using assms(1) by (simp add: tick_def)
  ultimately show ?thesis
    by (auto simp: aheadWeight_def)
qed

text \<open>Every registered timer comes to the head of the timer list after finitely many turns.\<close>

lemma timer_reaches_head:
  "waiting s x w \<Longrightarrow>
     \<exists>n rest. timers (runEvents h (replicate n TimerFires) s) = x # rest
       \<and> timersOrdered (runEvents h (replicate n TimerFires) s)"
proof (induction w arbitrary: s rule: less_induct)
  case (less w)
  from less.prems obtain pre post where dec: "timers s = pre @ x # post"
    and w: "aheadWeight (fst x) pre \<le> w" and ord: "timersOrdered s"
    by (auto simp: waiting_def)
  show ?case
  proof (cases pre)
    case Nil
    with dec ord have "timers (runEvents h (replicate 0 TimerFires) s) = x # post
        \<and> timersOrdered (runEvents h (replicate 0 TimerFires) s)"
      by simp
    then show ?thesis
      by blast
  next
    case (Cons t pre')
    obtain t0 c0 where t: "t = (t0, c0)"
      by (cases t)
    from dec Cons t have "timers s = ((t0, c0) # pre') @ x # post"
      by simp
    from waiting_tick [OF this ord, of h] obtain w' where w': "waiting (tick h s) x w'"
      and "w' < aheadWeight (fst x) ((t0, c0) # pre')"
      by blast
    with w Cons t have "w' < w"
      by simp
    from less.IH [OF this w'] obtain n rest
      where "timers (runEvents h (replicate n TimerFires) (tick h s)) = x # rest"
        and "timersOrdered (runEvents h (replicate n TimerFires) (tick h s))"
      by blast
    then have "timers (runEvents h (replicate (Suc n) TimerFires) s) = x # rest
        \<and> timersOrdered (runEvents h (replicate (Suc n) TimerFires) s)"
      by (simp add: applyEvent_def)
    then show ?thesis
      by blast
  qed
qed

lemma registered_timer_runs:
  assumes "timersOrdered s" and "(due, cb) \<in> set (timers s)"
  shows "\<exists>n rest. timers (runEvents h (replicate n TimerFires) s) = (due, cb) # rest
      \<and> tick h (runEvents h (replicate n TimerFires) s) =
          fire h cb ((runEvents h (replicate n TimerFires) s)\<lparr>timers := rest, clock := due\<rparr>)"
proof -
  from assms(2) obtain pre post where "timers s = pre @ (due, cb) # post"
    by (auto simp: in_set_conv_decomp)
  with assms(1) have "waiting s (due, cb) (aheadWeight due pre)"
    by (auto simp: waiting_def)
  from timer_reaches_head [OF this, of h] obtain n rest
    where head: "timers (runEvents h (replicate n TimerFires) s) = (due, cb) # rest"
      and ord: "timersOrdered (runEvents h (replicate n TimerFires) s)"
    by blast
  from head ord have "clock (runEvents h (replicate n TimerFires) s) \<le> due"
    by (simp add: timersOrdered_def)
  with head have "tick h (runEvents h (replicate n TimerFires) s) =
      fire h cb ((runEvents h (replicate n TimerFires) s)\<lparr>timers := rest, clock := due\<rparr>)"
    by (simp add: tick_def max_def)
  with head show ?thesis
    by blast
qed

lemma timersOrdered_fire: "timersOrdered s \<Longrightarrow> timersOrdered (fire h cb s)"
proof (cases cb)
  case (ResumeProcessQueue task out)
  assume ord: "timersOrdered s"
  then have dl: "timersOrdered (s\<lparr>deadLetterQueue := dl\<rparr>)" for dl
    by (simp add: timersOrdered_def)
  from ord dl ResumeProcessQueue show ?thesis
    by (cases out)
      (auto simp: fire_def resumeProcessQueue_Resolved resumeProcessQueue_Rejected
        intro!: timersOrdered_setTimeout)
next
  case (UnshiftTask task)
  assume "timersOrdered s"
  with UnshiftTask show ?thesis
    by (simp add: fire_def timersOrdered_def)
next
  case CallProcessQueue
  assume ord: "timersOrdered s"
  then have "timersOrdered (s\<lparr>processing := p\<rparr>)"
    and "timersOrdered (s\<lparr>processing := p, queue := q\<rparr>)" for p q
    by (simp_all add: timersOrdered_def)
  with CallProcessQueue show ?thesis
    by (auto simp: fire_def processQueue_def Let_def
        intro!: timersOrdered_setTimeout split: list.splits)
qed

lemma timersOrdered_tick: "timersOrdered s \<Longrightarrow> timersOrdered (tick h s)"
proof (cases "timers s")
  case Nil
  assume "timersOrdered s"
  with Nil show ?thesis
    by (simp add: tick_def)
next
  case (Cons t rest)
  assume ord: "timersOrdered s"
  obtain t0 c0 where t: "t = (t0, c0)"
    by (cases t)
  from ord Cons t have "timersOrdered (s\<lparr>timers := rest, clock := max (clock s) t0\<rparr>)"
    by (auto simp: timersOrdered_def list_all_iff)
  then have "timersOrdered (fire h c0 (s\<lparr>timers := rest, clock := max (clock s) t0\<rparr>))"
    by (rule timersOrdered_fire)
  with Cons t show ?thesis
    by (simp add: tick_def)
qed

lemma timersOrdered_enqueue: "timersOrdered s \<Longrightarrow> timersOrdered (enqueue h task s)"
proof -
  assume "timersOrdered s"
  then have "timersOrdered (s\<lparr>queue := queue s @ [task]\<rparr>)"
    by (simp add: timersOrdered_def)
  moreover from this have "timersOrdered (fire h CallProcessQueue (s\<lparr>queue := queue s @ [task]\<rparr>))"
    by (rule timersOrdered_fire)
  ultimately show ?thesis
    by (simp add: enqueue_def Let_def fire_def)
qed

lemma timersOrdered_idle: "timersOrdered idleEngine"
  by (simp add: timersOrdered_def idleEngine_def)

text \<open>
  C5. When an attempt fails and the incremented counter is below \<^verbatim>\<open>maxAttempts\<close>, the task
  is marked \<^verbatim>\<open>FAILED\<close> with the counter incremented and the error recorded, and a timer is
  registered whose delay is \<open>2 ^ attempts\<close> seconds, \<open>attempts\<close> being the incremented
  counter; neither the pending sequence nor the dead-letter collection changes. After
  finitely many turns of the event loop that timer is the next to run, and the turn that
  runs it, at the clock reading \<open>2 ^ attempts\<close> seconds after the failure, puts the task at
  the head of the pending sequence.
\<close>

theorem retry_backoff_and_head_reinsertion:
  assumes "attempts task + 1 < maxAttempts task" and "timersOrdered s"
  shows "failTask msg task =
           task\<lparr>attempts := attempts task + 1, task_error := Some msg, task_status := FAILED\<rparr>
       \<and> backoffDelay (failTask msg task) = 2 ^ attempts (failTask msg task) * 1000
       \<and> attempts (failTask msg task) = attempts task + 1
       \<and> resumeProcessQueue task (Rejected msg) s =
           setTimeout CallProcessQueue 100
             (setTimeout (UnshiftTask (failTask msg task)) (2 ^ (attempts task + 1) * 1000) s)
       \<and> queue (resumeProcessQueue task (Rejected msg) s) = queue s
       \<and> deadLetterQueue (resumeProcessQueue task (Rejected msg) s) = deadLetterQueue s
       \<and> (\<exists>n rest.
            timers (runEvents h (replicate n TimerFires) (resumeProcessQueue task (Rejected msg) s)) =
              (clock s + 2 ^ (attempts task + 1) * 1000, UnshiftTask (failTask msg task)) # rest
          \<and> tick h (runEvents h (replicate n TimerFires) (resumeProcessQueue task (Rejected msg) s)) =
              (runEvents h (replicate n TimerFires) (resumeProcessQueue task (Rejected msg) s))
                \<lparr>timers := rest, clock := clock s + 2 ^ (attempts task + 1) * 1000,
                 queue := failTask msg task
                   # queue (runEvents h (replicate n TimerFires)
                        (resumeProcessQueue task (Rejected msg) s))\<rparr>)"
proof -
  let ?due = "clock s + 2 ^ (attempts task + 1) * 1000"
  let ?s = "resumeProcessQueue task (Rejected msg) s"
  from assms(1) have ft: "failTask msg task =
      task\<lparr>attempts := attempts task + 1, task_error := Some msg, task_status := FAILED\<rparr>"
    by (simp add: failTask_def Let_def)
  then have att: "attempts (failTask msg task) = attempts task + 1"
    and mx: "maxAttempts (failTask msg task) = maxAttempts task"
    by simp_all
  from assms(1) att mx have res: "?s =
      setTimeout CallProcessQueue 100
        (setTimeout (UnshiftTask (failTask msg task)) (2 ^ (attempts task + 1) * 1000) s)"
    by (simp add: resumeProcessQueue_Resolved resumeProcessQueue_Rejected Let_def backoffDelay_def)
  have registered: "(?due, UnshiftTask (failTask msg task)) \<in> set (timers ?s)"
    unfolding res by (simp add: setTimeout_def set_insertTimer)
  from assms(2) have "timersOrdered ?s"
    unfolding res by (intro timersOrdered_setTimeout)
  from registered_timer_runs [OF this registered, of h] obtain n rest
    where head: "timers (runEvents h (replicate n TimerFires) ?s) =
        (?due, UnshiftTask (failTask msg task)) # rest"
      and run: "tick h (runEvents h (replicate n TimerFires) ?s) =
        fire h (UnshiftTask (failTask msg task))
          ((runEvents h (replicate n TimerFires) ?s)\<lparr>timers := rest, clock := ?due\<rparr>)"
    by blast
  from run have "tick h (runEvents h (replicate n TimerFires) ?s) =
      (runEvents h (replicate n TimerFires) ?s)
        \<lparr>timers := rest, clock := ?due,
         queue := failTask msg task # queue (runEvents h (replicate n TimerFires) ?s)\<rparr>"
    by (simp add: fire_def)
  with head have "\<exists>n rest.
      timers (runEvents h (replicate n TimerFires) ?s) =
        (?due, UnshiftTask (failTask msg task)) # rest
      \<and> tick h (runEvents h (replicate n TimerFires) ?s) =
          (runEvents h (replicate n TimerFires) ?s)
            \<lparr>timers := rest, clock := ?due,
             queue := failTask msg task # queue (runEvents h (replicate n TimerFires) ?s)\<rparr>"
    by blast
  moreover have "queue ?s = queue s" "deadLetterQueue ?s = deadLetterQueue s"
    unfolding res by simp_all
  ultimately show ?thesis
    using ft att res by (simp add: backoffDelay_def)
qed

theorem retry_backoff_and_head_reinsertion_witness:
  "attempts goodTask + 1 < maxAttempts goodTask
   \<and> timersOrdered (idleEngine\<lparr>clock := 500\<rparr>)
   \<and> timers (resumeProcessQueue goodTask (Rejected ''down'') (idleEngine\<lparr>clock := 500\<rparr>)) =
       [(600, CallProcessQueue),
        (2500, UnshiftTask (goodTask\<lparr>attempts := 1, task_error := Some ''down'',
                              task_status := FAILED\<rparr>))]
   \<and> (\<exists>n rest.
        timers (runEvents executeTask (replicate n TimerFires)
            (resumeProcessQueue goodTask (Rejected ''down'') (idleEngine\<lparr>clock := 500\<rparr>))) =
          (2500, UnshiftTask (goodTask\<lparr>attempts := 1, task_error := Some ''down'',
                                task_status := FAILED\<rparr>)) # rest
      \<and> queue (tick executeTask (runEvents executeTask (replicate n TimerFires)
            (resumeProcessQueue goodTask (Rejected ''down'') (idleEngine\<lparr>clock := 500\<rparr>)))) =
          goodTask\<lparr>attempts := 1, task_error := Some ''down'', task_status := FAILED\<rparr>
            # queue (runEvents executeTask (replicate n TimerFires)
                (resumeProcessQueue goodTask (Rejected ''down'') (idleEngine\<lparr>clock := 500\<rparr>)))
      \<and> clock (tick executeTask (runEvents executeTask (replicate n TimerFires)
            (resumeProcessQueue goodTask (Rejected ''down'') (idleEngine\<lparr>clock := 500\<rparr>)))) = 2500)"
proof -
  let ?s = "idleEngine\<lparr>clock := 500\<rparr>"
  let ?r = "resumeProcessQueue goodTask (Rejected ''down'') ?s"
  have small: "attempts goodTask + 1 < maxAttempts goodTask"
    by (simp add: goodTask_def poisonTask_def)
  have ord: "timersOrdered ?s"
    by (simp add: timersOrdered_def idleEngine_def)
  have zero: "attempts goodTask = 0"
    by (simp add: goodTask_def poisonTask_def)
  note w = retry_backoff_and_head_reinsertion [OF small ord, where msg = "''down''"
      and h = executeTask]
  note c2 = w [THEN conjunct2]
  note c4 = c2 [THEN conjunct2, THEN conjunct2]
  note c7 = c4 [THEN conjunct2, THEN conjunct2, THEN conjunct2]
  from w [THEN conjunct1] have ft: "failTask ''down'' goodTask =
      goodTask\<lparr>attempts := 1, task_error := Some ''down'', task_status := FAILED\<rparr>"
    by (simp add: zero)
  from c4 [THEN conjunct1]
  have 1: "timers ?r = [(600, CallProcessQueue), (2500, UnshiftTask (failTask ''down'' goodTask))]"
    by (simp add: zero setTimeout_def idleEngine_def)
  from c7 obtain n rest
    where head: "timers (runEvents executeTask (replicate n TimerFires) ?r) =
        (clock ?s + 2 ^ (attempts goodTask + 1) * 1000, UnshiftTask (failTask ''down'' goodTask)) # rest"
      and run: "tick executeTask (runEvents executeTask (replicate n TimerFires) ?r) =
        (runEvents executeTask (replicate n TimerFires) ?r)
          \<lparr>timers := rest, clock := clock ?s + 2 ^ (attempts goodTask + 1) * 1000,
           queue := failTask ''down'' goodTask
             # queue (runEvents executeTask (replicate n TimerFires) ?r)\<rparr>"
    by blast
  have due: "clock ?s + 2 ^ (attempts goodTask + 1) * 1000 = 2500"
    by (simp add: zero)
  from head have 2: "timers (runEvents executeTask (replicate n TimerFires) ?r) =
      (2500, UnshiftTask (failTask ''down'' goodTask)) # rest"
    by (simp only: due)
  from run have 3: "queue (tick executeTask (runEvents executeTask (replicate n TimerFires) ?r)) =
      failTask ''down'' goodTask # queue (runEvents executeTask (replicate n TimerFires) ?r)"
    and 4: "clock (tick executeTask (runEvents executeTask (replicate n TimerFires) ?r)) = 2500"
    by (simp_all only: due) simp_all
  from 2 3 4 have "\<exists>n rest.
      timers (runEvents executeTask (replicate n TimerFires) ?r) =
        (2500, UnshiftTask (failTask ''down'' goodTask)) # rest
      \<and> queue (tick executeTask (runEvents executeTask (replicate n TimerFires) ?r)) =
        failTask ''down'' goodTask # queue (runEvents executeTask (replicate n TimerFires) ?r)
      \<and> clock (tick executeTask (runEvents executeTask (replicate n TimerFires) ?r)) = 2500"
    by blast
  with 1 small ord show ?thesis
    by (simp only: ft)
qed

lemma callbackTasks_insert_call:
  "concat (map (\<lambda>t. callbackTasks (snd t)) (insertTimer (d, CallProcessQueue) xs)) =
     concat (map (\<lambda>t. callbackTasks (snd t)) xs)"
  by (induction xs) auto

text \<open>
  C8, as the spec states it, fails for completed tasks: a task enqueued on an idle engine is
  in flight; once its handler has resolved, the engine refers to it nowhere, and when the
  driver has stopped the queue status shows nothing and the dead-letter collection is empty.
\<close>

theorem completed_task_not_retained_counterexample:
  "task_id goodTask \<in> set (map task_id (heldTasks (runEvents executeTask [EnqueueAt 0 goodTask] idleEngine)))
   \<and> snd (executeTask (goodTask\<lparr>task_status := PROCESSING\<rparr>)) = Resolved
   \<and> heldTasks (runEvents executeTask [EnqueueAt 0 goodTask, TimerFires] idleEngine) = []
   \<and> runEvents executeTask [EnqueueAt 0 goodTask, TimerFires, TimerFires] idleEngine =
       idleEngine\<lparr>clock := 600\<rparr>
   \<and> getStatus (idleEngine\<lparr>clock := 600\<rparr>) = (0, False, 0)
   \<and> getDeadLetterQueue (idleEngine\<lparr>clock := 600\<rparr>) = []"
  by (simp add: applyEvent_def enqueue_def idleEngine_def processQueue_def Let_def setTimeout_def
      executeTask_def poisonTask_def goodTask_def sendNotification_def readPayload_def tick_def
      fire_def resumeProcessQueue_Resolved resumeProcessQueue_Rejected heldTasks_def getStatus_def getDeadLetterQueue_def)

text \<open>
  C8, amended. Dead-lettered tasks are never deleted: over any sequence of enqueue calls and
  turns of the event loop, with any handler, the dead-letter collection keeps its tasks,
  unchanged and in order, and only grows at its end. A completed task is not retained: the
  turn that completes a task leaves the engine referring to the tasks it referred to
  without it.
\<close>

theorem dead_letters_persist_completed_dropped:
  "prefix (getDeadLetterQueue s) (getDeadLetterQueue (runEvents h evs s))
   \<and> heldTasks (tick h (s\<lparr>timers := (due, ResumeProcessQueue task Resolved) # rest\<rparr>)) =
       heldTasks (s\<lparr>timers := rest\<rparr>)"
  by (simp add: getDeadLetterQueue_def deadLetterQueue_runEvents tick_def fire_def
      resumeProcessQueue_Resolved resumeProcessQueue_Rejected setTimeout_def heldTasks_def callbackTasks_insert_call)

text \<open>
  C9. A creation request with a title and a description is answered 201, and the engine then
  is the engine before with three tasks enqueued in this order: a notification task, a
  cache-invalidation task and a preview task, each handed over with status \<^verbatim>\<open>PENDING\<close>,
  \<open>attempts = 0\<close> and \<^verbatim>\<open>maxAttempts\<close> 3, 2 and 3. The engine refers to exactly these three tasks
  more than before.
\<close>

theorem create_enqueues_three_tasks:
  assumes "c_title body = Some t" and "t \<noteq> []"
    and "c_description body = Some d" and "d \<noteq> []"
  shows "\<exists>r. fst (createReport now uuid user body (ds, tq)) = ReportResponse 201 r
       \<and> report_id r = uuid
       \<and> snd (snd (createReport now uuid user body (ds, tq))) =
           enqueue executeTask (previewTask now r)
             (enqueue executeTask (cacheTask now r)
               (enqueue executeTask (notificationTask now r user) tq))
       \<and> map (\<lambda>task. (task_type task, task_status task, attempts task, maxAttempts task))
             [notificationTask now r user, cacheTask now r, previewTask now r] =
           [(SEND_NOTIFICATION, PENDING, 0, 3), (INVALIDATE_CACHE, PENDING, 0, 2),
            (GENERATE_PREVIEW, PENDING, 0, 3)]
       \<and> mset (map task_id (heldTasks (snd (snd (createReport now uuid user body (ds, tq)))))) =
           mset (map task_id (heldTasks tq))
             + {#uuid @ ''-notification'', uuid @ ''-cache'', uuid @ ''-preview''#}"
proof -
  let ?r = "newReport now uuid user t d (c_metadata body)"
  from assms have out: "createReport now uuid user body (ds, tq) =
      (ReportResponse 201 ?r, DataStore_createReport ds ?r,
       enqueue executeTask (previewTask now ?r)
         (enqueue executeTask (cacheTask now ?r)
           (enqueue executeTask (notificationTask now ?r user) tq)))"
    by (simp add: createReport_def falsy_def Let_def)
  have rid: "report_id ?r = uuid"
    by (simp add: newReport_def)
  have ids: "task_id (notificationTask now ?r user) = uuid @ ''-notification''"
    "task_id (cacheTask now ?r) = uuid @ ''-cache''"
    "task_id (previewTask now ?r) = uuid @ ''-preview''"
    by (simp_all add: notificationTask_def cacheTask_def previewTask_def rid)
  have seeds: "map (\<lambda>task. (task_type task, task_status task, attempts task, maxAttempts task))
      [notificationTask now ?r user, cacheTask now ?r, previewTask now ?r] =
      [(SEND_NOTIFICATION, PENDING, 0, 3), (INVALIDATE_CACHE, PENDING, 0, 2),
       (GENERATE_PREVIEW, PENDING, 0, 3)]"
    by (simp add: notificationTask_def cacheTask_def previewTask_def)
  have held: "mset (map task_id (heldTasks (snd (snd (createReport now uuid user body (ds, tq)))))) =
      mset (map task_id (heldTasks tq))
        + {#uuid @ ''-notification'', uuid @ ''-cache'', uuid @ ''-preview''#}"
    unfolding out by (simp add: heldTasks_enqueue ids)
  from out rid seeds held show ?thesis
    by (intro exI [of _ ?r]) simp
qed

theorem create_enqueues_three_tasks_witness:
  "\<exists>r. fst (createReport 7 ''r9'' exampleUser exampleCreate (exampleStore, idleEngine)) =
         ReportResponse 201 r
     \<and> report_id r = ''r9''
     \<and> snd (snd (createReport 7 ''r9'' exampleUser exampleCreate (exampleStore, idleEngine))) =
         enqueue executeTask (previewTask 7 r)
           (enqueue executeTask (cacheTask 7 r)
             (enqueue executeTask (notificationTask 7 r exampleUser) idleEngine))
     \<and> mset (map task_id (heldTasks
           (snd (snd (createReport 7 ''r9'' exampleUser exampleCreate (exampleStore, idleEngine)))))) =
         {#''r9-notification'', ''r9-cache'', ''r9-preview''#}"
proof -
  have h: "c_title exampleCreate = Some ''Weekly''" "''Weekly'' \<noteq> []"
    "c_description exampleCreate = Some ''Week 44''" "''Week 44'' \<noteq> []"
    by (simp_all add: exampleCreate_def)
  have none: "heldTasks idleEngine = []"
    by (simp add: heldTasks_def idleEngine_def)
  from create_enqueues_three_tasks [OF h, of 7 "''r9''" exampleUser exampleStore idleEngine]
  obtain r where r: "fst (createReport 7 ''r9'' exampleUser exampleCreate (exampleStore, idleEngine)) =
         ReportResponse 201 r"
     "report_id r = ''r9''"
     "snd (snd (createReport 7 ''r9'' exampleUser exampleCreate (exampleStore, idleEngine))) =
         enqueue executeTask (previewTask 7 r)
           (enqueue executeTask (cacheTask 7 r)
             (enqueue executeTask (notificationTask 7 r exampleUser) idleEngine))"
     "mset (map task_id (heldTasks
           (snd (snd (createReport 7 ''r9'' exampleUser exampleCreate (exampleStore, idleEngine)))))) =
         mset (map task_id (heldTasks idleEngine))
           + {#''r9'' @ ''-notification'', ''r9'' @ ''-cache'', ''r9'' @ ''-preview''#}"
    by blast
  from r(4) have "mset (map task_id (heldTasks
           (snd (snd (createReport 7 ''r9'' exampleUser exampleCreate (exampleStore, idleEngine)))))) =
         {#''r9-notification'', ''r9-cache'', ''r9-preview''#}"
    by (simp add: none)
  with r(1,2,3) show ?thesis
    by blast
qed

end
